theory Spec2Isabelle
  imports Complex_Main
begin

section \<open>Fields, dictionaries and files of the driver vel2tauc.py\<close>

text \<open>
  A grid cell is the index pair \<open>(i, j)\<close> that \<open>grid.points()\<close> enumerates. A two-dimensional
  scalar field (\<open>IceModelVec2S\<close>, \<open>IceModelVec2Int\<close>) holds one number per cell, a velocity field
  (\<open>IceModelVec2V\<close>) a pair. The dictionary \<open>modeldata.vecs\<close> maps a name to a field, and a
  NetCDF file maps a variable name to a scalar field.
\<close>

type_synonym cell = "int \<times> int"
type_synonym field2S = "cell \<Rightarrow> real"
type_synonym field2V = "cell \<Rightarrow> real \<times> real"

datatype vec = Vec2S field2S | Vec2V field2V

type_synonym vecs = "string \<rightharpoonup> vec"
type_synonym ncfile = "string \<rightharpoonup> field2S"

definition fileHasVariable :: "ncfile \<Rightarrow> string \<Rightarrow> bool" where
  "fileHasVariable f v = (case f v of None \<Rightarrow> False | Some _ \<Rightarrow> True)"

datatype py_error = PyException | AttributeError string | RegridError string | ZeroDivisionError

section \<open>Vel2Tauc: the fixed mask of zeta\<close>

text \<open>
  Lines 149-154 of \<open>Vel2Tauc._initSSACoefficients\<close>: the mask is set to 1 everywhere, then the
  loop over \<open>grid.points()\<close> writes 0 at each cell where \<open>MaskQuery(mask).grounded_ice(i,j)\<close>
  holds. \<open>MaskQuery\<close> is a class of the library; its answer is the parameter \<open>mq\<close>.
\<close>

fun zeta_fixed_mask_loop :: "(cell \<Rightarrow> bool) \<Rightarrow> cell list \<Rightarrow> field2S \<Rightarrow> field2S" where
  "zeta_fixed_mask_loop mq [] m = m"
| "zeta_fixed_mask_loop mq (p # ps) m =
     zeta_fixed_mask_loop mq ps (if mq p then m(p := 0) else m)"

definition make_zeta_fixed_mask :: "(cell \<Rightarrow> bool) \<Rightarrow> cell list \<Rightarrow> field2S" where
  "make_zeta_fixed_mask mq points = zeta_fixed_mask_loop mq points (\<lambda>_. 1)"

text \<open>
  The tail of \<open>_initSSACoefficients\<close> (lines 131-155). The dictionary \<open>vecs0\<close> is
  \<open>modeldata.vecs\<close> as lines 82-129 leave it (the model state read from the boot file),
  when they complete: lines 110 and 123 read a global \<open>grid\<close> that the main program binds
  only at line 423, after the setup, so the two branches that print there raise instead.
  The misfit weight is read from the inverse data file; a file without
  \<open>misfit_element_mask\<close> raises \<open>Exception()\<close> (line 139) before the mask is built.
\<close>

text \<open>
  \<open>regrid(file, True)\<close> reads the variable that has the field's name; the read is critical,
  so a missing variable ends the run.
\<close>

definition regrid2S :: "ncfile \<Rightarrow> string \<Rightarrow> py_error + field2S" where
  "regrid2S f v = (case f v of None \<Rightarrow> Inl (RegridError v) | Some x \<Rightarrow> Inr x)"

definition initSSACoefficients ::
  "cell list \<Rightarrow> (cell \<Rightarrow> bool) \<Rightarrow> ncfile \<Rightarrow> vecs \<Rightarrow> py_error + vecs" where
  "initSSACoefficients points mq inv_data vecs0 =
     (case regrid2S inv_data ''vel_misfit_weight'' of
        Inl e \<Rightarrow> Inl e
      | Inr weight \<Rightarrow>
          (let vecs1 = vecs0(''vel_misfit_weight'' \<mapsto> Vec2S weight) in
           if fileHasVariable inv_data ''misfit_element_mask'' then
             (case regrid2S inv_data ''misfit_element_mask'' of
                Inl e \<Rightarrow> Inl e
              | Inr mem \<Rightarrow>
                  (let vecs2 = vecs1(''misfit_element_mask'' \<mapsto> Vec2S mem);
                       zeta_fixed_mask = make_zeta_fixed_mask mq points
                   in Inr (vecs2(''zeta_fixed_mask'' \<mapsto> Vec2S zeta_fixed_mask))))
           else Inl PyException))"

text \<open>
  \<open>Vel2Tauc.setup\<close> (lines 57-78) on the solver object \<open>self.ssa\<close>, after the setup of the
  base class has built \<open>vecs\<close> and the solver. Reading an attribute of \<open>vecs\<close> that was never
  added fails.
\<close>

record ssa_state =
  boundary_conditions :: "(vec \<times> vec) option"
  tauc_fixed_locations :: "vec option"
  init_vars :: "vecs option"
  quad_pt_cached :: bool
  functionals_set :: bool

definition vecs_attr :: "vecs \<Rightarrow> string \<Rightarrow> py_error + vec" where
  "vecs_attr vs n = (case vs n of None \<Rightarrow> Inl (AttributeError n) | Some v \<Rightarrow> Inr v)"

fun startswith :: "string \<Rightarrow> string \<Rightarrow> bool" where
  "startswith s [] = True"
| "startswith [] (c # cs) = False"
| "startswith (d # ds) (c # cs) = (d = c \<and> startswith ds cs)"

definition set_boundary_conditions_step :: "vecs \<Rightarrow> ssa_state \<Rightarrow> py_error + ssa_state" where
  "set_boundary_conditions_step vs ssa =
     (if vs ''vel_bc'' \<noteq> None then
        (case vecs_attr vs ''bc_mask'' of
           Inl e \<Rightarrow> Inl e
         | Inr bm \<Rightarrow>
             (case vecs_attr vs ''vel_bc'' of
                Inl e \<Rightarrow> Inl e
              | Inr vb \<Rightarrow> Inr (ssa\<lparr>boundary_conditions := Some (bm, vb)\<rparr>)))
      else Inr ssa)"

definition set_fixed_locations_step :: "bool \<Rightarrow> vecs \<Rightarrow> ssa_state \<Rightarrow> ssa_state" where
  "set_fixed_locations_step using_zeta_fixed_mask vs ssa =
     (if vs ''zeta_fixed_mask'' \<noteq> None \<and> using_zeta_fixed_mask
      then ssa\<lparr>tauc_fixed_locations := vs ''zeta_fixed_mask''\<rparr>
      else ssa)"

definition Vel2Tauc_setup ::
  "bool \<Rightarrow> string \<Rightarrow> vecs \<Rightarrow> ssa_state \<Rightarrow> py_error + ssa_state" where
  "Vel2Tauc_setup using_zeta_fixed_mask inv_method vs ssa =
     (case set_boundary_conditions_step vs ssa of
        Inl e \<Rightarrow> Inl e
      | Inr ssa1 \<Rightarrow>
          (let ssa2 = set_fixed_locations_step using_zeta_fixed_mask vs ssa1;
               ssa3 = ssa2\<lparr>init_vars := Some vs\<rparr>;
               ssa4 = ssa3\<lparr>quad_pt_cached := True\<rparr>
           in Inr (if startswith inv_method ''tikhonov''
                   then ssa4\<lparr>functionals_set := True\<rparr> else ssa4)))"

section \<open>The main program\<close>

text \<open>
  The command line, as the options group of lines 336-379 reads it (with the flag of
  \<open>Vel2Tauc._setFromOptions\<close>, line 45). An option without a default is \<open>None\<close> when absent.
\<close>

record options =
  o_input_filename :: "string option"
  o_append_filename :: "string option"
  o_output_filename :: "string option"
  o_inv_data_filename :: "string option"
  o_inv_method :: string
  o_rms_error :: real
  o_eta :: real
  o_ssa_l2_coeff :: real
  o_ssa_h1_coeff :: real
  o_do_plotting :: bool
  o_do_pause :: bool
  o_test_adjoint :: bool
  o_do_restart :: bool
  o_use_tauc_prior :: bool
  o_Vmax :: real
  o_monitor_adjoint :: bool
  o_is_regional :: bool
  o_prep_module :: "string option"
  o_tikhonov_atol :: real
  o_tikhonov_rtol :: real
  o_use_zeta_fixed_mask :: bool

datatype cfg_value = CfgReal real | CfgString string

datatype message =
    NoInputFile
  | OnlyOneOfIA
  | OnlyOneOfAO
  | TaucNotAvailable string
  | RestartMissingZeta string
  | AdjointNotWithMethod string
  | AdjointReport real real
  | NoObservedVelocities string
  | RestartingInversion
  | StartingInversion
  | InverseSolveFailure string
  | InverseSolveSuccess string

datatype listener =
    Vel2TaucPlotListener real
  | Vel2TaucLinPlotListener real
  | MonitorAdjoint
  | MonitorAdjointLin
  | PauseListener
  | PrintTikhonovProgress
  | PrintRMSMisfit
  | ZetaSaver string

datatype event =
    Printed message
  | EvTestTStar
  | EvComputeSIA
  | EvSolveInverse
  | EvWriteProvenance string
  | EvWriteSolution string bool
  | EvLoggerWrite string

datatype outcome = Exit int | PISMEndQuiet | Quit | Aborted py_error | Finished

record inv_solver =
  s_method :: string
  iteration_listeners :: "listener list"
  linear_iteration_listeners :: "listener list"
  xupdate_listeners :: "listener list"

record solve_result =
  r_success :: bool
  r_reason :: string
  r_zeta :: field2S
  r_u :: field2V
  r_updates :: "field2S list"

text \<open>
  What the driver takes from the PISM library and from siple, none of it in this file's
  source: the constant \<open>PISM.secpera\<close>, the parameterisation \<open>tauc_param\<close>, the random vectors,
  the adjoint test, the SIA velocities, the inverse solver and the user's prep module; and
  what the setup of the base class \<open>SSAFromInputFile\<close> provides: the dictionary of model
  state, the grid points, the answer of \<open>MaskQuery.grounded_ice\<close> and the solver objects.
  \<open>solver_method\<close> is the attribute \<open>method\<close> that the constructor of \<open>InvSSASolver\<close> gives
  the solver. \<open>randVectorS\<close> is the vector drawn at line 471, and \<open>randVectorV\<close> gives the
  vector drawn at line 480 for the scale it is called with. A library call can raise:
  \<open>testTStar\<close> returns an error or the pair of numbers. A solve returns its success, the
  reason, the solution and, in \<open>r_updates\<close>, the iterates it went through, in order.
\<close>

record library =
  secpera :: real
  convertFromTauc :: "field2S \<Rightarrow> field2S"
  convertToTauc :: "field2S \<Rightarrow> field2S"
  randVectorS :: field2S
  randVectorV :: "real \<Rightarrow> field2V"
  testTStar :: "field2S \<Rightarrow> field2S \<Rightarrow> field2V \<Rightarrow> py_error + real \<times> real"
  computeSIASurfaceVelocities :: "bool \<Rightarrow> vecs \<Rightarrow> field2V"
  solveInverse :: "inv_solver \<Rightarrow> field2S \<Rightarrow> field2V \<Rightarrow> solve_result"
  prep_solver :: "string \<Rightarrow> inv_solver \<Rightarrow> inv_solver"
  base_vecs :: vecs
  grid_points :: "cell list"
  grounded_ice :: "cell \<Rightarrow> bool"
  new_ssa :: ssa_state
  solver_method :: string

record main_state =
  config :: "string \<rightharpoonup> cfg_value"
  mvecs :: vecs
  files :: "string \<Rightarrow> ncfile"
  trace :: "event list"
  input_filename :: string
  output_filename :: string
  inv_data_filename :: string
  append_mode :: bool
  saving_inv_data :: bool
  ssa :: ssa_state
  solver :: inv_solver
  tauc_prior :: field2S
  tauc :: field2S
  zeta :: field2S
  vel_ssa_observed :: field2V
  rms_error :: real

text \<open>
  The state of a run: the configuration, the dictionary \<open>vecs\<close>, the files (a file that does
  not exist has no variable), the local variables of the main program, and a trace of what
  the run prints and of the library operations it calls. A run either goes on with a state
  or has ended with an outcome.
\<close>

type_synonym run = "(outcome \<times> main_state) + main_state"

definition printed :: "message \<Rightarrow> main_state \<Rightarrow> main_state" where
  "printed m s = s\<lparr>trace := trace s @ [Printed m]\<rparr>"

definition happened :: "event \<Rightarrow> main_state \<Rightarrow> main_state" where
  "happened e s = s\<lparr>trace := trace s @ [e]\<rparr>"

fun is_engine_call :: "event \<Rightarrow> bool" where
  "is_engine_call EvTestTStar = True"
| "is_engine_call EvComputeSIA = True"
| "is_engine_call EvSolveInverse = True"
| "is_engine_call _ = False"

definition calls :: "main_state \<Rightarrow> event list" where
  "calls s = filter is_engine_call (trace s)"

definition stop :: "outcome \<Rightarrow> main_state \<Rightarrow> run" where
  "stop out s = Inl (out, s)"

definition final :: "run \<Rightarrow> main_state" where
  "final r = (case r of Inl h \<Rightarrow> snd h | Inr s \<Rightarrow> s)"

definition then_run :: "run \<Rightarrow> (main_state \<Rightarrow> run) \<Rightarrow> run" where
  "then_run r f = (case r of Inl h \<Rightarrow> Inl h | Inr s \<Rightarrow> f s)"

definition basename :: "string \<Rightarrow> string" where
  "basename p = rev (takeWhile (\<lambda>c. c \<noteq> CHR ''/'') (rev p))"

text \<open>
  Lines 334-383: the file names. \<open>PISMEndQuiet\<close> ends the program. Past the three checks
  one of \<open>-i\<close> and \<open>-a\<close> is given, so the input file has a name. The option \<open>-rms_error\<close>
  is read into the local variable \<open>rms_error\<close>.
\<close>

definition resolve_filenames :: "options \<Rightarrow> main_state \<Rightarrow> run" where
  "resolve_filenames opts s =
     (if o_input_filename opts = None \<and> o_append_filename opts = None
      then stop PISMEndQuiet (printed NoInputFile s)
      else if o_input_filename opts \<noteq> None \<and> o_append_filename opts \<noteq> None
      then stop PISMEndQuiet (printed OnlyOneOfIA s)
      else if o_output_filename opts \<noteq> None \<and> o_append_filename opts \<noteq> None
      then stop PISMEndQuiet (printed OnlyOneOfAO s)
      else
        (let inp = (case o_append_filename opts of
                      Some a \<Rightarrow> a
                    | None \<Rightarrow> (case o_input_filename opts of Some i \<Rightarrow> i | None \<Rightarrow> []));
             outp0 = (case o_append_filename opts of
                      Some a \<Rightarrow> Some a | None \<Rightarrow> o_output_filename opts);
             inv_data = (case o_inv_data_filename opts of Some d \<Rightarrow> d | None \<Rightarrow> inp);
             outp = (case outp0 of Some f \<Rightarrow> f | None \<Rightarrow> ''vel2tauc_'' @ basename inp)
         in Inr (s\<lparr>input_filename := inp, output_filename := outp,
                   inv_data_filename := inv_data,
                   append_mode := (o_append_filename opts \<noteq> None),
                   saving_inv_data := (inv_data \<noteq> outp),
                   rms_error := o_rms_error opts\<rparr>)))"

text \<open>Lines 385-407: the configuration.\<close>

definition configure :: "options \<Rightarrow> main_state \<Rightarrow> run" where
  "configure opts s =
     Inr (s\<lparr>config := (config s)
        (''inv_ssa_tauc_param'' \<mapsto> CfgString ''ident'',
         ''inv_ssa_domain_l2_coeff'' \<mapsto> CfgReal (o_ssa_l2_coeff opts),
         ''inv_ssa_domain_h1_coeff'' \<mapsto> CfgReal (o_ssa_h1_coeff opts),
         ''inv_ssa_cL2'' \<mapsto> CfgReal (o_ssa_l2_coeff opts),
         ''inv_ssa_cH1'' \<mapsto> CfgReal (o_ssa_h1_coeff opts),
         ''inv_ssa_velocity_scale'' \<mapsto> CfgReal 100,
         ''inv_ssa_tauc_min'' \<mapsto> CfgReal 500,
         ''inv_ssa_tauc_max'' \<mapsto> CfgReal 50000000,
         ''tikhonov_atol'' \<mapsto> CfgReal (o_tikhonov_atol opts),
         ''tikhonov_rtol'' \<mapsto> CfgReal (o_tikhonov_rtol opts),
         ''tauc_param_trunc_tauc0'' \<mapsto> CfgReal (0.01 * 50000),
         ''tauc_param_tauc_eps'' \<mapsto> CfgReal (0.001 * 50000),
         ''tauc_param_tauc_scale'' \<mapsto> CfgReal 50000,
         ''inv_ssa_method'' \<mapsto> CfgString (o_inv_method opts),
         ''inv_ssa_rms_error'' \<mapsto> CfgReal (o_rms_error opts),
         ''inv_ssa_tikhonov_eta'' \<mapsto> CfgReal (o_eta opts))\<rparr>)"

text \<open>
  Lines 411-414: the \<open>Vel2Tauc\<close> object is set up (the base class runs
  \<open>_initSSACoefficients\<close>, then the body of \<open>setup\<close> follows) and the inverse solver is
  constructed. An exception of the setup is not caught.
\<close>

definition config_get_string :: "(string \<rightharpoonup> cfg_value) \<Rightarrow> string \<Rightarrow> py_error + string" where
  "config_get_string cfg k =
     (case cfg k of Some (CfgString v) \<Rightarrow> Inr v | _ \<Rightarrow> Inl PyException)"

definition construct :: "library \<Rightarrow> options \<Rightarrow> main_state \<Rightarrow> run" where
  "construct lib opts s =
     (case initSSACoefficients (grid_points lib) (grounded_ice lib)
             (files s (inv_data_filename s)) (base_vecs lib) of
        Inl e \<Rightarrow> stop (Aborted e) s
      | Inr vs \<Rightarrow>
          (case config_get_string (config s) ''inv_ssa_method'' of
             Inl e \<Rightarrow> stop (Aborted e) s
           | Inr inv_method \<Rightarrow>
               (case Vel2Tauc_setup (o_use_zeta_fixed_mask opts) inv_method vs (new_ssa lib) of
                  Inl e \<Rightarrow> stop (Aborted e) s
                | Inr ssa' \<Rightarrow>
                    Inr (s\<lparr>mvecs := vs, ssa := ssa',
                            solver := \<lparr>s_method = solver_method lib,
                                       iteration_listeners = [],
                                       linear_iteration_listeners = [],
                                       xupdate_listeners = []\<rparr>\<rparr>))))"

text \<open>Lines 428-439: the prior guess for tauc.\<close>

definition load_tauc_prior :: "options \<Rightarrow> main_state \<Rightarrow> run" where
  "load_tauc_prior opts s =
     (if o_use_tauc_prior opts then
        (case regrid2S (files s (inv_data_filename s)) ''tauc_prior'' of
           Inl e \<Rightarrow> stop (Aborted e) s
         | Inr tp \<Rightarrow> Inr (s\<lparr>tauc_prior := tp, mvecs := (mvecs s)(''tauc_prior'' \<mapsto> Vec2S tp)\<rparr>))
      else if \<not> fileHasVariable (files s (input_filename s)) ''tauc''
      then stop (Exit 1) (printed (TaucNotAvailable (input_filename s)) s)
      else
        (case regrid2S (files s (input_filename s)) ''tauc'' of
           Inl e \<Rightarrow> stop (Aborted e) s
         | Inr t \<Rightarrow> Inr (s\<lparr>tauc := t, tauc_prior := t,
                           mvecs := (mvecs s)(''tauc_prior'' \<mapsto> Vec2S t)\<rparr>)))"

text \<open>Lines 444-448: a synthetic inversion carries \<open>tauc_true\<close> along.\<close>

definition load_tauc_true :: "main_state \<Rightarrow> run" where
  "load_tauc_true s =
     (if fileHasVariable (files s (inv_data_filename s)) ''tauc_true'' then
        (case regrid2S (files s (inv_data_filename s)) ''tauc_true'' of
           Inl e \<Rightarrow> stop (Aborted e) s
         | Inr tt \<Rightarrow> Inr (s\<lparr>mvecs := (mvecs s)(''tauc_true'' \<mapsto> Vec2S tt)\<rparr>))
      else Inr s)"

text \<open>
  Lines 453-464: the initial guess for zeta. A restart reads \<open>zeta_inv\<close> from the output
  file; otherwise the prior is converted.
\<close>

definition init_zeta :: "library \<Rightarrow> options \<Rightarrow> main_state \<Rightarrow> run" where
  "init_zeta lib opts s =
     then_run
       (if o_do_restart opts then
          (if \<not> fileHasVariable (files s (output_filename s)) ''zeta_inv''
           then stop (Exit 1) (printed (RestartMissingZeta (output_filename s)) s)
           else
             (case regrid2S (files s (output_filename s)) ''zeta_inv'' of
                Inl e \<Rightarrow> stop (Aborted e) s
              | Inr z \<Rightarrow> Inr (s\<lparr>zeta := z\<rparr>)))
        else Inr (s\<lparr>zeta := convertFromTauc lib (tauc_prior s)\<rparr>))
       (\<lambda>s1. Inr (s1\<lparr>mvecs := (mvecs s1)(''zeta_inv'' \<mapsto> Vec2S (zeta s1))\<rparr>))"

text \<open>
  Lines 466-484: the test of the adjoint. The loop of lines 477-479 zeroes the direction
  \<open>d\<close> wherever the mask is not 0; it runs only under \<open>using_zeta_fixed_mask\<close>. The scale
  \<open>1./PISM.secpera\<close> of line 480 is a float division, which raises on a zero divisor. An
  exception of \<open>testTStar\<close> is not caught.
\<close>

fun zero_fixed_loop :: "field2S \<Rightarrow> cell list \<Rightarrow> field2S \<Rightarrow> field2S" where
  "zero_fixed_loop zfm [] d = d"
| "zero_fixed_loop zfm (p # ps) d =
     zero_fixed_loop zfm ps (if zfm p \<noteq> 0 then d(p := 0) else d)"

definition vecs_attr2S :: "vecs \<Rightarrow> string \<Rightarrow> py_error + field2S" where
  "vecs_attr2S vs n =
     (case vs n of
        None \<Rightarrow> Inl (AttributeError n)
      | Some (Vec2S f) \<Rightarrow> Inr f
      | Some (Vec2V _) \<Rightarrow> Inl PyException)"

definition test_direction ::
  "bool \<Rightarrow> vecs \<Rightarrow> cell list \<Rightarrow> field2S \<Rightarrow> py_error + field2S" where
  "test_direction using_zeta_fixed_mask vs points d =
     (if using_zeta_fixed_mask then
        (case vecs_attr2S vs ''zeta_fixed_mask'' of
           Inl e \<Rightarrow> Inl e
         | Inr zfm \<Rightarrow> Inr (zero_fixed_loop zfm points d))
      else Inr d)"

definition adjoint_test :: "library \<Rightarrow> options \<Rightarrow> main_state \<Rightarrow> run" where
  "adjoint_test lib opts s =
     (if o_test_adjoint opts then
        (if startswith (s_method (solver s)) ''tikhonov''
         then stop (Exit 1) (printed (AdjointNotWithMethod (s_method (solver s))) s)
         else
           (case test_direction (o_use_zeta_fixed_mask opts) (mvecs s) (grid_points lib)
                   (randVectorS lib) of
              Inl e \<Rightarrow> stop (Aborted e) s
            | Inr d \<Rightarrow>
                (if secpera lib = 0 then stop (Aborted ZeroDivisionError) s
                 else
                   (let r = randVectorV lib (1 / secpera lib);
                        s1 = happened EvTestTStar s
                    in case testTStar lib (zeta s) d r of
                         Inl e \<Rightarrow> stop (Aborted e) s1
                       | Inr ips \<Rightarrow>
                           stop (Exit 0) (printed (AdjointReport (fst ips) (snd ips)) s1)))))
      else Inr s)"

text \<open>
  Lines 486-506: the observed SSA velocities. A velocity field is read from the two
  variables \<open>u...\<close> and \<open>v...\<close> of the file; \<open>add(-1, x)\<close> adds \<open>-1\<close> times \<open>x\<close>.
\<close>

definition regrid2V :: "ncfile \<Rightarrow> string \<Rightarrow> py_error + field2V" where
  "regrid2V f sfx =
     (case f (''u'' @ sfx) of
        None \<Rightarrow> Inl (RegridError (''u'' @ sfx))
      | Some u \<Rightarrow>
          (case f (''v'' @ sfx) of
             None \<Rightarrow> Inl (RegridError (''v'' @ sfx))
           | Some v \<Rightarrow> Inr (\<lambda>c. (u c, v c))))"

definition vec_add :: "real \<Rightarrow> field2V \<Rightarrow> field2V \<Rightarrow> field2V" where
  "vec_add alpha x y = (\<lambda>c. (fst (y c) + alpha * fst (x c), snd (y c) + alpha * snd (x c)))"

definition load_observations :: "library \<Rightarrow> options \<Rightarrow> main_state \<Rightarrow> run" where
  "load_observations lib opts s =
     (let inv_data = files s (inv_data_filename s) in
      if fileHasVariable inv_data ''u_ssa_observed'' then
        (case regrid2V inv_data ''_ssa_observed'' of
           Inl e \<Rightarrow> stop (Aborted e) s
         | Inr v \<Rightarrow> Inr (s\<lparr>vel_ssa_observed := v,
                           mvecs := (mvecs s)(''vel_ssa_observed'' \<mapsto> Vec2V v)\<rparr>))
      else if \<not> fileHasVariable inv_data ''u_surface_observed''
      then stop (Exit 1) (printed (NoObservedVelocities (inv_data_filename s)) s)
      else
        (case regrid2V inv_data ''_surface_observed'' of
           Inl e \<Rightarrow> stop (Aborted e) s
         | Inr vel_surface_observed \<Rightarrow>
             (let vs1 = (mvecs s)(''vel_surface_observed'' \<mapsto> Vec2V vel_surface_observed);
                  vel_sia_observed = computeSIASurfaceVelocities lib (o_is_regional opts) vs1;
                  v = vec_add (- 1) vel_sia_observed vel_surface_observed
              in Inr (happened EvComputeSIA
                        (s\<lparr>vel_ssa_observed := v,
                           mvecs := vs1(''vel_ssa_observed'' \<mapsto> Vec2V v)\<rparr>)))))"

text \<open>
  Lines 512-532: outside append mode the output file is created anew; then zeta is
  written to it under its name \<open>zeta_inv\<close>, and the command line is recorded.
\<close>

definition write_var :: "string \<Rightarrow> string \<Rightarrow> field2S \<Rightarrow> (string \<Rightarrow> ncfile) \<Rightarrow> (string \<Rightarrow> ncfile)" where
  "write_var fname v x fs = fs(fname := (fs fname)(v \<mapsto> x))"

definition prepare_output :: "main_state \<Rightarrow> run" where
  "prepare_output s =
     (let fs1 = (if \<not> append_mode s then (files s)(output_filename s := Map.empty)
                 else files s);
          fs2 = write_var (output_filename s) ''zeta_inv'' (zeta s) fs1
      in Inr (happened (EvWriteProvenance (output_filename s)) (s\<lparr>files := fs2\<rparr>)))"

text \<open>Lines 536-553: the listeners, in the order of registration.\<close>

definition addIterationListener :: "listener \<Rightarrow> inv_solver \<Rightarrow> inv_solver" where
  "addIterationListener l sv = sv\<lparr>iteration_listeners := iteration_listeners sv @ [l]\<rparr>"

definition addLinearIterationListener :: "listener \<Rightarrow> inv_solver \<Rightarrow> inv_solver" where
  "addLinearIterationListener l sv =
     sv\<lparr>linear_iteration_listeners := linear_iteration_listeners sv @ [l]\<rparr>"

definition addXUpdateListener :: "listener \<Rightarrow> inv_solver \<Rightarrow> inv_solver" where
  "addXUpdateListener l sv = sv\<lparr>xupdate_listeners := xupdate_listeners sv @ [l]\<rparr>"

definition attach_listeners :: "options \<Rightarrow> string \<Rightarrow> inv_solver \<Rightarrow> inv_solver" where
  "attach_listeners opts outp sv0 =
     (let sv1 = (if o_do_plotting opts then
                   (let a = addIterationListener (Vel2TaucPlotListener (o_Vmax opts)) sv0
                    in if s_method a = ''ign''
                       then addLinearIterationListener (Vel2TaucLinPlotListener (o_Vmax opts)) a
                       else a)
                 else sv0);
          sv2 = (if o_monitor_adjoint opts then
                   (let a = addIterationListener MonitorAdjoint sv1
                    in if s_method a = ''ign''
                       then addLinearIterationListener MonitorAdjointLin a
                       else a)
                 else sv1);
          sv3 = (if o_do_pause opts then addIterationListener PauseListener sv2 else sv2);
          sv4 = (if startswith (o_inv_method opts) ''tikhonov''
                 then addIterationListener PrintTikhonovProgress sv3
                 else addIterationListener PrintRMSMisfit sv3)
      in addXUpdateListener (ZetaSaver outp) sv4)"

definition setup_solver :: "library \<Rightarrow> options \<Rightarrow> main_state \<Rightarrow> run" where
  "setup_solver lib opts s =
     (let sv = attach_listeners opts (output_filename s) (solver s);
          sv' = (case o_prep_module opts of
                   None \<Rightarrow> sv | Some m \<Rightarrow> prep_solver lib m sv)
      in Inr (s\<lparr>solver := sv'\<rparr>))"

text \<open>
  Modelled from the spec: the update listener \<open>ZetaSaver\<close> of \<open>PISM.invert_ssa\<close>, which the
  driver registers at line 553 and whose code is not part of this source. Spec 4.6:
  \<open>addXUpdateListener(fn)\<close> is "invoked whenever the iterate is updated, e.g., for
  checkpointing"; spec 6: the restart state is "a single checkpoint field (the latest
  ParameterField) stored under a well-known name". The driver creates zeta under the name
  \<open>zeta_inv\<close> (line 454). Every other listener leaves the files alone.
\<close>

definition call_xupdate_listener ::
  "listener \<Rightarrow> field2S \<Rightarrow> (string \<Rightarrow> ncfile) \<Rightarrow> (string \<Rightarrow> ncfile)" where
  "call_xupdate_listener l z fs =
     (case l of ZetaSaver outp \<Rightarrow> write_var outp ''zeta_inv'' z fs | _ \<Rightarrow> fs)"

fun call_xupdate_listeners ::
  "listener list \<Rightarrow> field2S \<Rightarrow> (string \<Rightarrow> ncfile) \<Rightarrow> (string \<Rightarrow> ncfile)" where
  "call_xupdate_listeners [] z fs = fs"
| "call_xupdate_listeners (l # ls) z fs = call_xupdate_listeners ls z (call_xupdate_listener l z fs)"

text \<open>
  Modelled from the spec: the call of the update listeners by the solver, which is not
  part of this source. Spec 4.6: listeners "are invoked synchronously, in registration
  order, after each corresponding event", the update listeners "whenever the iterate is
  updated".
\<close>

fun notify_updates ::
  "listener list \<Rightarrow> field2S list \<Rightarrow> (string \<Rightarrow> ncfile) \<Rightarrow> (string \<Rightarrow> ncfile)" where
  "notify_updates ls [] fs = fs"
| "notify_updates ls (x # xs) fs = notify_updates ls xs (call_xupdate_listeners ls x fs)"

text \<open>
  Lines 563-594: the target is divided by \<open>secpera\<close> (a float division, which raises on a
  zero divisor), the inverse problem is solved, and on success the solution is converted
  back to tauc and written out. \<open>quit()\<close> ends the program after a failure. During the
  solve the update listeners registered on the solver see every iterate.
\<close>

definition solve_and_write :: "library \<Rightarrow> options \<Rightarrow> main_state \<Rightarrow> run" where
  "solve_and_write lib opts s =
     (let s1 = printed (if o_do_restart opts then RestartingInversion
                        else StartingInversion) s
      in if secpera lib = 0 then stop (Aborted ZeroDivisionError) s1
         else
           (let s2 = s1\<lparr>rms_error := rms_error s1 / secpera lib\<rparr>;
                res = solveInverse lib (solver s2) (zeta s2) (vel_ssa_observed s2);
                fs = notify_updates (xupdate_listeners (solver s2)) (r_updates res) (files s2);
                s3 = happened EvSolveInverse (s2\<lparr>files := fs\<rparr>)
            in if \<not> r_success res
               then stop Quit (printed (InverseSolveFailure (r_reason res)) s3)
               else
                 (let s4 = printed (InverseSolveSuccess (r_reason res)) s3;
                      t = convertToTauc lib (r_zeta res);
                      vs = (mvecs s4)(''tauc'' \<mapsto> Vec2S t, ''vel_ssa_inv'' \<mapsto> Vec2V (r_u res));
                      s5 = s4\<lparr>zeta := r_zeta res, tauc := t, mvecs := vs\<rparr>;
                      s6 = happened (EvWriteSolution (output_filename s5) (append_mode s5)) s5
                  in stop Finished
                       (if \<not> append_mode s6
                        then happened (EvLoggerWrite (output_filename s6)) s6
                        else s6))))"

definition initial_state ::
  "library \<Rightarrow> (string \<rightharpoonup> cfg_value) \<Rightarrow> (string \<Rightarrow> ncfile) \<Rightarrow> options \<Rightarrow> main_state" where
  "initial_state lib config0 files0 opts =
     \<lparr>config = config0, mvecs = Map.empty, files = files0, trace = [],
      input_filename = [], output_filename = [], inv_data_filename = [],
      append_mode = False, saving_inv_data = False, ssa = new_ssa lib,
      solver = \<lparr>s_method = solver_method lib, iteration_listeners = [],
                 linear_iteration_listeners = [], xupdate_listeners = []\<rparr>,
      tauc_prior = (\<lambda>_. 0), tauc = (\<lambda>_. 0), zeta = (\<lambda>_. 0),
      vel_ssa_observed = (\<lambda>_. (0, 0)), rms_error = o_rms_error opts\<rparr>"

definition before_init_zeta :: "library \<Rightarrow> options \<Rightarrow> main_state \<Rightarrow> run" where
  "before_init_zeta lib opts s0 =
     then_run (then_run (then_run (then_run
       (resolve_filenames opts s0)
       (configure opts))
       (construct lib opts))
       (load_tauc_prior opts))
       load_tauc_true"

definition before_adjoint_test :: "library \<Rightarrow> options \<Rightarrow> main_state \<Rightarrow> run" where
  "before_adjoint_test lib opts s0 =
     then_run (before_init_zeta lib opts s0) (init_zeta lib opts)"

definition before_observations :: "library \<Rightarrow> options \<Rightarrow> main_state \<Rightarrow> run" where
  "before_observations lib opts s0 =
     then_run (before_adjoint_test lib opts s0) (adjoint_test lib opts)"

definition before_solve :: "library \<Rightarrow> options \<Rightarrow> main_state \<Rightarrow> run" where
  "before_solve lib opts s0 =
     then_run (then_run (then_run
       (before_observations lib opts s0)
       (load_observations lib opts))
       prepare_output)
       (setup_solver lib opts)"

text \<open>The phases that follow the configuration, up to the solve.\<close>

definition after_configure :: "library \<Rightarrow> options \<Rightarrow> main_state \<Rightarrow> run" where
  "after_configure lib opts sb =
     then_run (then_run (then_run (then_run (then_run (then_run (then_run
       (construct lib opts sb)
       (load_tauc_prior opts))
       load_tauc_true)
       (init_zeta lib opts))
       (adjoint_test lib opts))
       (load_observations lib opts))
       prepare_output)
       (setup_solver lib opts)"

definition main ::
  "library \<Rightarrow> (string \<rightharpoonup> cfg_value) \<Rightarrow> (string \<Rightarrow> ncfile) \<Rightarrow> options \<Rightarrow> outcome \<times> main_state" where
  "main lib config0 files0 opts =
     (case then_run (before_solve lib opts (initial_state lib config0 files0 opts))
             (solve_and_write lib opts) of
        Inl h \<Rightarrow> h
      | Inr s \<Rightarrow> (Finished, s))"

text \<open>
  An outcome is fatal when the program ends on an error: \<open>PISMEndQuiet\<close> after an error
  message, a nonzero exit status, or an exception that nothing catches.
\<close>

definition fatal :: "outcome \<Rightarrow> bool" where
  "fatal out =
     (case out of Exit n \<Rightarrow> n \<noteq> 0 | PISMEndQuiet \<Rightarrow> True | Aborted _ \<Rightarrow> True
      | Quit \<Rightarrow> False | Finished \<Rightarrow> False)"

definition fatal_stop :: "run \<Rightarrow> bool" where
  "fatal_stop r = (case r of Inl h \<Rightarrow> fatal (fst h) | Inr _ \<Rightarrow> True)"

section \<open>The inversion engine of the specification\<close>

text \<open>
  The solver behind \<open>solver.solveInverse\<close> (\<open>PISM.invert_ssa\<close> and the library under it) is
  not part of this source. The definitions of this section follow sections 3 to 7 of the
  specification.
\<close>

text \<open>
  Modelled from the spec: the outcomes of a solve, which are missing from the source. Spec 3:
  "ConvergenceReason: enumerated outcome {Success, MaxIterationsExceeded,
  LineSearchFailure, DivergedResidual, UserCancelled, ...}"; spec 7 adds the failure of the
  forward solve that is not resolved, and spec 4.6 the listener error that "aborts the
  solve with a reported failure". Spec 7: "failure always yields a named reason string".
\<close>

datatype convergence_reason =
    Success
  | MaxIterationsExceeded
  | LineSearchFailure
  | DivergedResidual
  | UserCancelled
  | ForwardSolveFailure
  | ListenerError

fun reason_name :: "convergence_reason \<Rightarrow> string" where
  "reason_name Success = ''Success''"
| "reason_name MaxIterationsExceeded = ''MaxIterationsExceeded''"
| "reason_name LineSearchFailure = ''LineSearchFailure''"
| "reason_name DivergedResidual = ''DivergedResidual''"
| "reason_name UserCancelled = ''UserCancelled''"
| "reason_name ForwardSolveFailure = ''ForwardSolveFailure''"
| "reason_name ListenerError = ''ListenerError''"

text \<open>
  Modelled from the spec: the states of the Iteration Controller, missing from the source.
  Spec 4.5: "States: Initialized -> Iterating -> {Converged, Diverged, Failed, Cancelled}";
  "Terminal states carry a ConvergenceReason".
\<close>

datatype controller_state = Initialized | Iterating | Converged | Diverged | Failed | Cancelled

fun terminal_state :: "convergence_reason \<Rightarrow> controller_state" where
  "terminal_state Success = Converged"
| "terminal_state DivergedResidual = Diverged"
| "terminal_state UserCancelled = Cancelled"
| "terminal_state _ = Failed"

text \<open>
  Modelled from the spec: the collaborators and the configuration of a solve, missing from
  the source. Spec 4.2: the Forward Model Evaluator returns a predicted field or signals
  \<open>ForwardSolveFailure\<close> (here \<open>None\<close>). Spec 4.3: the objective is the residual norm or the
  Tikhonov objective; a residual that has diverged has no value (\<open>None\<close>). Spec 4.5: the
  direction is method-specific, and convergence is tested against a configured target.
  Spec 3: the FixedMask marks the cells that must not change. Spec 4.4: the line search
  has "a configured number of trial evaluations". Spec 5: "an external interrupt flag is
  polled once per outer iteration (and once per line-search trial)"; \<open>interrupted k 0\<close> is
  the flag at the poll of outer iteration \<open>k\<close>, \<open>interrupted k (Suc j)\<close> at its trial \<open>j\<close>.
  Spec 4.6: listeners run in registration order; one that returns \<open>False\<close> has failed.
\<close>

record engine =
  forward :: "field2S \<Rightarrow> field2V option"
  objective :: "field2V \<Rightarrow> field2S \<Rightarrow> field2V \<Rightarrow> real option"
  direction :: "field2S \<Rightarrow> field2V \<Rightarrow> field2S"
  fixed_mask :: "cell \<Rightarrow> bool"
  target :: real
  max_iterations :: nat
  max_trials :: nat
  initial_step :: real
  backtrack :: real
  interrupted :: "nat \<Rightarrow> nat \<Rightarrow> bool"
  listeners :: "(nat \<Rightarrow> field2S \<Rightarrow> bool) list"

text \<open>
  Modelled from the spec: the enforcement of the FixedMask, missing from the source.
  Spec 3: "enforced by zeroing disallowed components of any proposed update/search
  direction"; spec 4.4: "zeroing disallowed components of the direction before searching".
\<close>

definition mask_direction :: "(cell \<Rightarrow> bool) \<Rightarrow> field2S \<Rightarrow> field2S" where
  "mask_direction fm d = (\<lambda>c. if fm c then 0 else d c)"

definition trial_point :: "field2S \<Rightarrow> real \<Rightarrow> field2S \<Rightarrow> field2S" where
  "trial_point x t d = (\<lambda>c. x c + t * d c)"

text \<open>
  Modelled from the spec: the Step/Line-search Engine, missing from the source. Spec 4.4:
  it "finds a step length ... sufficiently decreasing the objective along that direction,
  subject to a descent condition", and "signals LineSearchFailure if no acceptable step is
  found within a configured number of trial evaluations". Spec 4.2 and 7: a failure of the
  forward solve at a trial point is "recoverable by shrinking step". The result carries
  the number of trial evaluations made.
\<close>

definition try_step ::
  "engine \<Rightarrow> field2V \<Rightarrow> field2S \<Rightarrow> field2S \<Rightarrow> real \<Rightarrow> real \<Rightarrow> (field2V \<times> real) option" where
  "try_step E obs x d f0 t =
     (case forward E (trial_point x t d) of
        None \<Rightarrow> None
      | Some u \<Rightarrow>
          (case objective E obs (trial_point x t d) u of
             None \<Rightarrow> None
           | Some f \<Rightarrow> if f < f0 then Some (u, f) else None))"

datatype ls_result = StepFound real field2V real | LSFailed | LSCancelled

fun line_search ::
  "engine \<Rightarrow> field2V \<Rightarrow> nat \<Rightarrow> field2S \<Rightarrow> field2S \<Rightarrow> real \<Rightarrow> real \<Rightarrow> nat \<Rightarrow> nat
     \<Rightarrow> ls_result \<times> nat" where
  "line_search E obs k x d f0 t j 0 = (LSFailed, j)"
| "line_search E obs k x d f0 t j (Suc n) =
     (if interrupted E k (Suc j) then (LSCancelled, j)
      else
        (case try_step E obs x d f0 t of
           Some (u, f) \<Rightarrow> (StepFound t u f, Suc j)
         | None \<Rightarrow> line_search E obs k x d f0 (backtrack E * t) (Suc j) n))"

fun invoke_listeners :: "(nat \<Rightarrow> field2S \<Rightarrow> bool) list \<Rightarrow> nat \<Rightarrow> field2S \<Rightarrow> bool" where
  "invoke_listeners [] k x = True"
| "invoke_listeners (l # ls) k x = (if l k x then invoke_listeners ls k x else False)"

text \<open>
  Modelled from the spec: the Iteration Controller, missing from the source. Spec 4.5:
  "loop body = {evaluate forward model, evaluate residual/objective, compute direction
  (method-specific), line search for step, apply update with FixedMask enforcement, invoke
  all registered iteration listeners ..., check convergence against configured RMS-error
  target or Tikhonov tolerance}", with the transitions to Converged, Diverged/Failed and
  Cancelled listed there; spec 5: "iteration-count and tolerance limits serve as the
  termination guarantees". The public operation is
  "solve(initial_zeta, observed_data) -> (success, final_zeta, final_predicted)" with
  "convergedReason()".
\<close>

record solve_outcome =
  so_success :: bool
  so_zeta :: field2S
  so_predicted :: "field2V option"
  so_reason :: convergence_reason

definition ended :: "convergence_reason \<Rightarrow> field2S \<Rightarrow> field2V option \<Rightarrow> solve_outcome" where
  "ended r x u = \<lparr>so_success = (r = Success), so_zeta = x, so_predicted = u, so_reason = r\<rparr>"

fun iterate :: "engine \<Rightarrow> field2V \<Rightarrow> nat \<Rightarrow> nat \<Rightarrow> field2S \<Rightarrow> solve_outcome" where
  "iterate E obs k 0 x = ended MaxIterationsExceeded x None"
| "iterate E obs k (Suc n) x =
     (if interrupted E k 0 then ended UserCancelled x None
      else
        (case forward E x of
           None \<Rightarrow> ended ForwardSolveFailure x None
         | Some u \<Rightarrow>
             (case objective E obs x u of
                None \<Rightarrow> ended DivergedResidual x (Some u)
              | Some f0 \<Rightarrow>
                  (let d = mask_direction (fixed_mask E) (direction E x u) in
                   case fst (line_search E obs k x d f0 (initial_step E) 0 (max_trials E)) of
                     LSFailed \<Rightarrow> ended LineSearchFailure x (Some u)
                   | LSCancelled \<Rightarrow> ended UserCancelled x (Some u)
                   | StepFound t u' f \<Rightarrow>
                       (let x' = trial_point x t d in
                        if \<not> invoke_listeners (listeners E) k x'
                        then ended ListenerError x' (Some u')
                        else if f \<le> target E then ended Success x' (Some u')
                        else iterate E obs (Suc k) n x')))))"

definition solve :: "engine \<Rightarrow> field2S \<Rightarrow> field2V \<Rightarrow> solve_outcome" where
  "solve E initial_zeta observed_data = iterate E observed_data 0 (max_iterations E) initial_zeta"

text \<open>
  One pass through the loop body of \<open>iterate\<close>, told apart by what it does to the iterate:
  it stops the solve without an update, or it applies an update and then either ends the
  solve (\<open>Some\<close> outcome) or lets the loop go on (\<open>None\<close>).
\<close>

datatype iteration = Stopped solve_outcome | Updated field2S "solve_outcome option"

definition loop_body :: "engine \<Rightarrow> field2V \<Rightarrow> nat \<Rightarrow> field2S \<Rightarrow> iteration" where
  "loop_body E obs k x =
     (if interrupted E k 0 then Stopped (ended UserCancelled x None)
      else
        (case forward E x of
           None \<Rightarrow> Stopped (ended ForwardSolveFailure x None)
         | Some u \<Rightarrow>
             (case objective E obs x u of
                None \<Rightarrow> Stopped (ended DivergedResidual x (Some u))
              | Some f0 \<Rightarrow>
                  (let d = mask_direction (fixed_mask E) (direction E x u) in
                   case fst (line_search E obs k x d f0 (initial_step E) 0 (max_trials E)) of
                     LSFailed \<Rightarrow> Stopped (ended LineSearchFailure x (Some u))
                   | LSCancelled \<Rightarrow> Stopped (ended UserCancelled x (Some u))
                   | StepFound t u' f \<Rightarrow>
                       (let x' = trial_point x t d in
                        Updated x'
                          (if \<not> invoke_listeners (listeners E) k x'
                           then Some (ended ListenerError x' (Some u'))
                           else if f \<le> target E then Some (ended Success x' (Some u'))
                           else None))))))"

text \<open>
  The iterates a solve goes through, in order (every update it applies), and the iterate
  at the head of iteration \<open>i\<close> (\<open>None\<close> when the solve has ended before).
\<close>

fun updates :: "engine \<Rightarrow> field2V \<Rightarrow> nat \<Rightarrow> nat \<Rightarrow> field2S \<Rightarrow> field2S list" where
  "updates E obs k 0 x = []"
| "updates E obs k (Suc n) x =
     (case loop_body E obs k x of
        Stopped out \<Rightarrow> []
      | Updated x' (Some out) \<Rightarrow> [x']
      | Updated x' None \<Rightarrow> x' # updates E obs (Suc k) n x')"

fun iterate_head :: "engine \<Rightarrow> field2V \<Rightarrow> field2S \<Rightarrow> nat \<Rightarrow> field2S option" where
  "iterate_head E obs z 0 = Some z"
| "iterate_head E obs z (Suc i) =
     (case iterate_head E obs z i of
        None \<Rightarrow> None
      | Some x \<Rightarrow>
          (case loop_body E obs i x of
             Stopped out \<Rightarrow> None
           | Updated x' (Some out) \<Rightarrow> None
           | Updated x' None \<Rightarrow> Some x'))"

text \<open>
  Modelled from the spec: \<open>solveInverse\<close>, \<open>inverseConvergedReason\<close> and \<open>inverseSolution\<close> of
  the solver object, missing from the source, on top of \<open>solve\<close>. Spec 7: "all terminal
  failures set ConvergenceReason and return success=false rather than raising uncaught
  faults"; "failure always yields a named reason string".
\<close>

definition solveInverse_spec :: "engine \<Rightarrow> inv_solver \<Rightarrow> field2S \<Rightarrow> field2V \<Rightarrow> solve_result" where
  "solveInverse_spec E sv z u_obs =
     (let out = solve E z u_obs
      in \<lparr>r_success = so_success out, r_reason = reason_name (so_reason out),
          r_zeta = so_zeta out,
          r_u = (case so_predicted out of Some u \<Rightarrow> u | None \<Rightarrow> u_obs),
          r_updates = updates E u_obs 0 (max_iterations E) z\<rparr>)"

text \<open>
  A direction is an ascent direction when no positive step along it is accepted
  ("no admissible descent step exists").
\<close>

definition ascent_direction ::
  "engine \<Rightarrow> field2V \<Rightarrow> field2S \<Rightarrow> field2S \<Rightarrow> real \<Rightarrow> bool" where
  "ascent_direction E obs x d f0 = (\<forall>t. 0 < t \<longrightarrow> try_step E obs x d f0 t = None)"

section \<open>A small run: two cells, one input file\<close>

definition example_file :: ncfile where
  "example_file =
     [''tauc'' \<mapsto> (\<lambda>_. 100000),
      ''vel_misfit_weight'' \<mapsto> (\<lambda>_. 1),
      ''misfit_element_mask'' \<mapsto> (\<lambda>_. 1),
      ''u_surface_observed'' \<mapsto> (\<lambda>_. 7),
      ''v_surface_observed'' \<mapsto> (\<lambda>_. 5)]"

definition example_files :: "string \<Rightarrow> ncfile" where
  "example_files n = (if n = ''in.nc'' then example_file else Map.empty)"

definition example_lib :: library where
  "example_lib =
     \<lparr>secpera = 31556926,
      convertFromTauc = (\<lambda>t c. t c / 50000),
      convertToTauc = (\<lambda>z c. z c * 50000),
      randVectorS = (\<lambda>_. 3),
      randVectorV = (\<lambda>scale c. (1, 1)),
      testTStar = (\<lambda>z d r. Inr (d (0, 0), d (0, 1))),
      computeSIASurfaceVelocities = (\<lambda>_ _ _. (2, 1)),
      solveInverse = (\<lambda>sv z u. \<lparr>r_success = True, r_reason = ''converged'',
                                  r_zeta = z, r_u = u, r_updates = []\<rparr>),
      prep_solver = (\<lambda>_ sv. sv),
      base_vecs = Map.empty,
      grid_points = [(0, 0), (0, 1)],
      grounded_ice = (\<lambda>p. p = (0, 0)),
      new_ssa = \<lparr>boundary_conditions = None, tauc_fixed_locations = None,
                  init_vars = None, quad_pt_cached = False, functionals_set = False\<rparr>,
      solver_method = ''ign''\<rparr>"

definition example_opts :: options where
  "example_opts =
     \<lparr>o_input_filename = Some ''in.nc'', o_append_filename = None,
      o_output_filename = None, o_inv_data_filename = None,
      o_inv_method = ''ign'', o_rms_error = 100, o_eta = 1,
      o_ssa_l2_coeff = 1, o_ssa_h1_coeff = 0,
      o_do_plotting = False, o_do_pause = False, o_test_adjoint = False,
      o_do_restart = False, o_use_tauc_prior = False, o_Vmax = 30,
      o_monitor_adjoint = False, o_is_regional = False, o_prep_module = None,
      o_tikhonov_atol = 1, o_tikhonov_rtol = 0.1, o_use_zeta_fixed_mask = False\<rparr>"

text \<open>
  A small engine: the predicted velocity repeats zeta in both components, the objective is
  the misfit summed over the two cells, the direction is 1 everywhere, the cell \<open>(0, 1)\<close> is
  fixed, and nothing interrupts. With the direction - 1 every step increases the objective.
\<close>

definition example_engine :: engine where
  "example_engine =
     \<lparr>forward = (\<lambda>x. Some (\<lambda>c. (x c, x c))),
      objective = (\<lambda>obs x u. Some ((fst (obs (0, 0)) - fst (u (0, 0))) +
                                    (fst (obs (0, 1)) - fst (u (0, 1))))),
      direction = (\<lambda>x u c. 1),
      fixed_mask = (\<lambda>c. c = (0, 1)),
      target = 1,
      max_iterations = 3,
      max_trials = 4,
      initial_step = 1,
      backtrack = 1 / 2,
      interrupted = (\<lambda>k j. False),
      listeners = []\<rparr>"

definition example_engine_ascent :: engine where
  "example_engine_ascent = example_engine\<lparr>direction := (\<lambda>x u c. - 1)\<rparr>"

definition example_zeta0 :: field2S where
  "example_zeta0 = (\<lambda>c. 0)"

definition example_observed :: field2V where
  "example_observed = (\<lambda>c. (1, 1))"

definition example_observed_far :: field2V where
  "example_observed_far = (\<lambda>c. (5, 4))"

definition example_mask :: field2S where
  "example_mask = make_zeta_fixed_mask (grounded_ice example_lib) (grid_points example_lib)"

definition example_vecs :: vecs where
  "example_vecs = [''zeta_fixed_mask'' \<mapsto> Vec2S example_mask]"

section \<open>Library parts modelled from the specification\<close>

text \<open>
  Modelled from the spec: the adjoint self-test \<open>testTStar\<close> of the forward problem, whose
  code is not part of this source. Spec 4.3: "given a perturbation direction, compares
  directional derivative computed two ways (finite difference vs. adjoint) and reports two
  inner-product quantities for comparison; test passes if they agree within a tolerance
  set by the caller (this is exposed, not enforced, by the engine)". The linearised forward
  map \<open>T\<close>, its adjoint \<open>Tstar\<close> and the two inner products are parameters; the result is the
  pair (domain inner product, range inner product); nothing is compared and no error is
  raised.
\<close>

definition adjoint_self_test ::
  "(field2S \<Rightarrow> field2S \<Rightarrow> field2V) \<Rightarrow> (field2S \<Rightarrow> field2V \<Rightarrow> field2S) \<Rightarrow>
   (field2S \<Rightarrow> field2S \<Rightarrow> real) \<Rightarrow> (field2V \<Rightarrow> field2V \<Rightarrow> real) \<Rightarrow>
   field2S \<Rightarrow> field2S \<Rightarrow> field2V \<Rightarrow> py_error + real \<times> real" where
  "adjoint_self_test T Tstar ip_domain ip_range x d r =
     Inr (ip_domain d (Tstar x r), ip_range (T x d) r)"

text \<open>
  What a run shows of the RMS target: the configured value, the local variable, and
  whether the inverse solve was called.
\<close>

definition rms_view :: "main_state \<Rightarrow> cfg_value option \<times> real \<times> bool" where
  "rms_view s = (config s ''inv_ssa_rms_error'', rms_error s, EvSolveInverse \<in> set (trace s))"

definition not_end_quiet :: "run \<Rightarrow> bool" where
  "not_end_quiet r = (case r of Inl h \<Rightarrow> fst h \<noteq> PISMEndQuiet | Inr _ \<Rightarrow> True)"

section \<open>Properties of the fixed mask\<close>

lemma zeta_fixed_mask_loop_at:
  "zeta_fixed_mask_loop mq ps m p = (if p \<in> set ps \<and> mq p then 0 else m p)"
  by (induction ps arbitrary: m) auto

lemma make_zeta_fixed_mask_at:
  "make_zeta_fixed_mask mq ps p = (if p \<in> set ps \<and> mq p then 0 else 1)"
  by (simp add: make_zeta_fixed_mask_def zeta_fixed_mask_loop_at)

lemma initSSACoefficients_mask:
  assumes "initSSACoefficients points mq inv_data vecs0 = Inr vs"
  shows "vs ''zeta_fixed_mask'' = Some (Vec2S (make_zeta_fixed_mask mq points))"
  using assms
  by (auto simp: initSSACoefficients_def Let_def split: sum.splits if_splits)

lemma setup_hands_mask:
  assumes "Vel2Tauc_setup flag meth vs ssa0 = Inr ssa1"
  shows "tauc_fixed_locations ssa1 =
           (if vs ''zeta_fixed_mask'' \<noteq> None \<and> flag then vs ''zeta_fixed_mask''
            else tauc_fixed_locations ssa0)"
  using assms
  by (auto simp: Vel2Tauc_setup_def set_boundary_conditions_step_def
      set_fixed_locations_step_def Let_def split: sum.splits if_splits)

section \<open>Runs of the main program\<close>

lemma final_simps [simp]:
  "final (Inr s) = s" "final (Inl (out, s)) = s" "final (stop out s) = s"
  by (simp_all add: final_def stop_def)

lemma then_run_simps [simp]:
  "then_run (Inr s) f = f s" "then_run (Inl h) f = Inl h" "then_run (stop out s) f = stop out s"
  by (simp_all add: then_run_def stop_def)

lemma then_run_Inr: "then_run r f = Inr s' \<longleftrightarrow> (\<exists>s. r = Inr s \<and> f s = Inr s')"
  by (cases r) simp_all

lemma then_run_Inl: "then_run r f = Inl h \<longleftrightarrow> r = Inl h \<or> (\<exists>s. r = Inr s \<and> f s = Inl h)"
  by (cases r) auto

lemma printed_frame [simp]:
  "config (printed m s) = config s" "rms_error (printed m s) = rms_error s"
  "calls (printed m s) = calls s" "files (printed m s) = files s"
  "solver (printed m s) = solver s" "output_filename (printed m s) = output_filename s"
  by (simp_all add: printed_def calls_def)

lemma happened_frame [simp]:
  "config (happened e s) = config s" "rms_error (happened e s) = rms_error s"
  "calls (happened e s) = calls s @ (if is_engine_call e then [e] else [])"
  "files (happened e s) = files s"
  "solver (happened e s) = solver s" "output_filename (happened e s) = output_filename s"
  by (simp_all add: happened_def calls_def)

lemma calls_update [simp]:
  "calls (s\<lparr>config := c\<rparr>) = calls s"
  "calls (s\<lparr>mvecs := v\<rparr>) = calls s"
  "calls (s\<lparr>files := f\<rparr>) = calls s"
  "calls (s\<lparr>input_filename := n\<rparr>) = calls s"
  "calls (s\<lparr>output_filename := n\<rparr>) = calls s"
  "calls (s\<lparr>inv_data_filename := n\<rparr>) = calls s"
  "calls (s\<lparr>append_mode := b\<rparr>) = calls s"
  "calls (s\<lparr>saving_inv_data := b\<rparr>) = calls s"
  "calls (s\<lparr>ssa := a\<rparr>) = calls s"
  "calls (s\<lparr>solver := sv\<rparr>) = calls s"
  "calls (s\<lparr>tauc_prior := x\<rparr>) = calls s"
  "calls (s\<lparr>tauc := x\<rparr>) = calls s"
  "calls (s\<lparr>zeta := x\<rparr>) = calls s"
  "calls (s\<lparr>vel_ssa_observed := y\<rparr>) = calls s"
  "calls (s\<lparr>rms_error := r\<rparr>) = calls s"
  by (simp_all add: calls_def)

lemma resolve_filenames_calls: "calls (final (resolve_filenames opts s)) = calls s"
  by (simp add: resolve_filenames_def Let_def)

lemma configure_calls: "calls (final (configure opts s)) = calls s"
  by (simp add: configure_def)

lemma construct_calls: "calls (final (construct lib opts s)) = calls s"
  by (simp add: construct_def split: sum.splits)

lemma load_tauc_prior_calls: "calls (final (load_tauc_prior opts s)) = calls s"
  by (simp add: load_tauc_prior_def split: sum.splits)

lemma load_tauc_true_calls: "calls (final (load_tauc_true s)) = calls s"
  by (simp add: load_tauc_true_def split: sum.splits)

lemma init_zeta_calls: "calls (final (init_zeta lib opts s)) = calls s"
  by (simp add: init_zeta_def split: sum.splits)

lemma final_then_run:
  "final (then_run r f) = (case r of Inl h \<Rightarrow> snd h | Inr s \<Rightarrow> final (f s))"
  by (cases r) (simp_all add: final_def)

lemma calls_then_run:
  assumes "calls (final r) = c" and "\<And>s. calls (final (f s)) = calls s"
  shows "calls (final (then_run r f)) = c"
  using assms by (cases r) (auto simp: final_def)

lemma before_init_zeta_calls: "calls (final (before_init_zeta lib opts s)) = calls s"
  unfolding before_init_zeta_def
  by (intro calls_then_run resolve_filenames_calls configure_calls construct_calls
      load_tauc_prior_calls load_tauc_true_calls)

lemma before_adjoint_test_calls: "calls (final (before_adjoint_test lib opts s)) = calls s"
  unfolding before_adjoint_test_def
  by (intro calls_then_run before_init_zeta_calls init_zeta_calls)

lemma fatal_stop_simps [simp]:
  "fatal_stop (Inr s)" "fatal_stop (stop out s) = fatal out" "fatal_stop (Inl (out, s)) = fatal out"
  by (simp_all add: fatal_stop_def stop_def)

lemma fatal_simps [simp]:
  "fatal PISMEndQuiet" "fatal (Aborted e)" "fatal (Exit 1)" "\<not> fatal (Exit 0)" "\<not> fatal Quit" "\<not> fatal Finished"
  by (simp_all add: fatal_def)

lemma fatal_then_run:
  assumes "fatal_stop r" and "\<And>s. fatal_stop (f s)"
  shows "fatal_stop (then_run r f)"
  using assms by (cases r) auto

lemma resolve_filenames_fatal: "fatal_stop (resolve_filenames opts s)"
  by (simp add: resolve_filenames_def Let_def)

lemma configure_fatal: "fatal_stop (configure opts s)"
  by (simp add: configure_def)

lemma construct_fatal: "fatal_stop (construct lib opts s)"
  by (simp add: construct_def split: sum.splits)

lemma load_tauc_prior_fatal: "fatal_stop (load_tauc_prior opts s)"
  by (simp add: load_tauc_prior_def split: sum.splits)

lemma load_tauc_true_fatal: "fatal_stop (load_tauc_true s)"
  by (simp add: load_tauc_true_def split: sum.splits)

lemma init_zeta_fatal: "fatal_stop (init_zeta lib opts s)"
  by (simp add: init_zeta_def split: sum.splits)

lemma before_adjoint_test_fatal: "fatal_stop (before_adjoint_test lib opts s)"
  unfolding before_adjoint_test_def before_init_zeta_def
  by (intro fatal_then_run resolve_filenames_fatal configure_fatal construct_fatal
      load_tauc_prior_fatal load_tauc_true_fatal init_zeta_fatal)

lemma method_then_run:
  assumes "s_method (solver (final r)) = c" and "\<And>s. s_method (solver (final (f s))) = s_method (solver s)"
  shows "s_method (solver (final (then_run r f))) = c"
  using assms by (cases r) (auto simp: final_def)

lemma resolve_filenames_method: "s_method (solver (final (resolve_filenames opts s))) = s_method (solver s)"
  by (simp add: resolve_filenames_def Let_def)

lemma configure_method: "s_method (solver (final (configure opts s))) = s_method (solver s)"
  by (simp add: configure_def)

lemma construct_method:
  "s_method (solver s) = solver_method lib \<Longrightarrow>
   s_method (solver (final (construct lib opts s))) = solver_method lib"
  by (simp add: construct_def split: sum.splits)

lemma load_tauc_prior_method: "s_method (solver (final (load_tauc_prior opts s))) = s_method (solver s)"
  by (simp add: load_tauc_prior_def split: sum.splits)

lemma load_tauc_true_method: "s_method (solver (final (load_tauc_true s))) = s_method (solver s)"
  by (simp add: load_tauc_true_def split: sum.splits)

lemma init_zeta_method: "s_method (solver (final (init_zeta lib opts s))) = s_method (solver s)"
  by (simp add: init_zeta_def split: sum.splits)

lemma initial_state_simps [simp]:
  "calls (initial_state lib config0 files0 opts) = []"
  "s_method (solver (initial_state lib config0 files0 opts)) = solver_method lib"
  "files (initial_state lib config0 files0 opts) = files0"
  "rms_error (initial_state lib config0 files0 opts) = o_rms_error opts"
  by (simp_all add: initial_state_def calls_def)

lemma before_adjoint_test_method:
  "s_method (solver (final (before_adjoint_test lib opts (initial_state lib config0 files0 opts))))
     = solver_method lib"
proof -
  let ?s0 = "initial_state lib config0 files0 opts"
  have 1: "s_method (solver (final (then_run (resolve_filenames opts ?s0) (configure opts)))) = solver_method lib"
    by (rule method_then_run) (simp_all add: resolve_filenames_method configure_method)
  have 2: "s_method (solver (final (then_run (then_run (resolve_filenames opts ?s0) (configure opts)) (construct lib opts)))) = solver_method lib"
  proof (cases "then_run (resolve_filenames opts ?s0) (configure opts)")
    case (Inl h)
    then show ?thesis using 1 by simp
  next
    case (Inr b)
    with 1 have "s_method (solver b) = solver_method lib" by simp
    then show ?thesis using Inr by (simp add: construct_method)
  qed
  show ?thesis
    unfolding before_adjoint_test_def before_init_zeta_def
    by (intro method_then_run 2 load_tauc_prior_method load_tauc_true_method init_zeta_method)
qed

lemma main_stops_early:
  assumes "before_solve lib opts (initial_state lib config0 files0 opts) = Inl h"
  shows "main lib config0 files0 opts = h"
  using assms by (simp add: main_def)

section \<open>Properties of the driver\<close>

lemmas example_defs = example_file_def example_files_def example_lib_def example_opts_def

lemmas phase_defs = resolve_filenames_def configure_def construct_def load_tauc_prior_def
  load_tauc_true_def init_zeta_def adjoint_test_def load_observations_def prepare_output_def
  setup_solver_def

text \<open>
  C5. When the adjoint test is requested and the solver's method starts with \<open>tikhonov\<close>,
  the program ends on a fatal error without any call of the engine (no adjoint test, no
  SIA computation, no inverse solve); once the run has reached the test (no earlier
  error ended it), it reports that the option cannot be used with the method and exits
  with status 1.
\<close>

theorem adjoint_test_refuses_tikhonov:
  assumes "o_test_adjoint opts" and "startswith (solver_method lib) ''tikhonov''"
  shows "(\<forall>out s. main lib config0 files0 opts = (out, s) \<longrightarrow> fatal out \<and> calls s = []) \<and>
         (\<forall>s1. before_adjoint_test lib opts (initial_state lib config0 files0 opts) = Inr s1 \<longrightarrow>
            main lib config0 files0 opts =
              (Exit 1, printed (AdjointNotWithMethod (solver_method lib)) s1))"
proof -
  let ?s0 = "initial_state lib config0 files0 opts"
  let ?r = "before_adjoint_test lib opts ?s0"
  have reach: "main lib config0 files0 opts =
      (Exit 1, printed (AdjointNotWithMethod (solver_method lib)) s1)" if "?r = Inr s1" for s1
  proof -
    have "s_method (solver s1) = solver_method lib"
      using before_adjoint_test_method [of lib opts config0 files0] that by simp
    then have "adjoint_test lib opts s1 =
        stop (Exit 1) (printed (AdjointNotWithMethod (solver_method lib)) s1)"
      using assms by (simp add: adjoint_test_def)
    then have "before_solve lib opts ?s0 =
        Inl (Exit 1, printed (AdjointNotWithMethod (solver_method lib)) s1)"
      using that by (simp add: before_solve_def before_observations_def stop_def)
    then show ?thesis by (rule main_stops_early)
  qed
  have all: "fatal out \<and> calls s = []" if m: "main lib config0 files0 opts = (out, s)" for out s
  proof (cases ?r)
    case (Inl h)
    then have "before_solve lib opts ?s0 = Inl h"
      by (simp add: before_solve_def before_observations_def)
    then have "main lib config0 files0 opts = h" by (rule main_stops_early)
    with m have h: "h = (out, s)" by simp
    have "fatal_stop ?r" by (rule before_adjoint_test_fatal)
    moreover have "calls (final ?r) = calls ?s0" by (rule before_adjoint_test_calls)
    ultimately show ?thesis using Inl h by simp
  next
    case (Inr s1)
    have "calls (final ?r) = calls ?s0" by (rule before_adjoint_test_calls)
    then have "calls s1 = []" using Inr by simp
    then show ?thesis using reach [OF Inr] m by auto
  qed
  show ?thesis using reach all by blast
qed


theorem adjoint_test_refuses_tikhonov_witness:
  "o_test_adjoint (example_opts\<lparr>o_test_adjoint := True\<rparr>) \<and>
   startswith (solver_method (example_lib\<lparr>solver_method := ''tikhonov_lmvm''\<rparr>)) ''tikhonov'' \<and>
   fst (main (example_lib\<lparr>solver_method := ''tikhonov_lmvm''\<rparr>) Map.empty example_files
          (example_opts\<lparr>o_test_adjoint := True\<rparr>)) = Exit 1 \<and>
   calls (snd (main (example_lib\<lparr>solver_method := ''tikhonov_lmvm''\<rparr>) Map.empty example_files
          (example_opts\<lparr>o_test_adjoint := True\<rparr>))) = []"
proof -
  let ?lib = "example_lib\<lparr>solver_method := ''tikhonov_lmvm''\<rparr>"
  let ?opts = "example_opts\<lparr>o_test_adjoint := True\<rparr>"
  have h1: "o_test_adjoint ?opts" by simp
  have h2: "startswith (solver_method ?lib) ''tikhonov''" by simp
  have "\<exists>s1. before_adjoint_test ?lib ?opts (initial_state ?lib Map.empty example_files ?opts) = Inr s1"
    by (simp add: before_adjoint_test_def before_init_zeta_def example_defs phase_defs
        initial_state_def Let_def basename_def initSSACoefficients_def regrid2S_def
        fileHasVariable_def config_get_string_def Vel2Tauc_setup_def
        set_boundary_conditions_step_def set_fixed_locations_step_def stop_def)
  then obtain s1 where r: "before_adjoint_test ?lib ?opts (initial_state ?lib Map.empty example_files ?opts) = Inr s1" ..
  from adjoint_test_refuses_tikhonov [OF h1 h2, of Map.empty example_files] r
  have m: "main ?lib Map.empty example_files ?opts = (Exit 1, printed (AdjointNotWithMethod (solver_method ?lib)) s1)"
    and a: "\<forall>out s. main ?lib Map.empty example_files ?opts = (out, s) \<longrightarrow> fatal out \<and> calls s = []"
    by blast+
  from a m have "calls (snd (main ?lib Map.empty example_files ?opts)) = []" by simp
  with m h1 h2 show ?thesis by simp
qed


text \<open>
  C7. After the coefficients are initialised, \<open>zeta_fixed_mask\<close> is 0 exactly at the grid
  cells with grounded ice and 1 at every other grid cell; under \<open>-use_zeta_fixed_mask\<close> the
  setup hands this mask to the solver as its fixed locations, and without the flag the
  solver's fixed locations are left as they were.
\<close>

theorem zeta_fixed_mask_grounded:
  assumes "initSSACoefficients points mq inv_data vecs0 = Inr vs"
  shows "\<exists>m. vs ''zeta_fixed_mask'' = Some (Vec2S m) \<and>
           (\<forall>p \<in> set points. (m p = 0 \<longleftrightarrow> mq p) \<and> (\<not> mq p \<longrightarrow> m p = 1)) \<and>
           (\<forall>meth ssa0 ssa1. Vel2Tauc_setup True meth vs ssa0 = Inr ssa1 \<longrightarrow>
              tauc_fixed_locations ssa1 = Some (Vec2S m)) \<and>
           (\<forall>meth ssa0 ssa1. Vel2Tauc_setup False meth vs ssa0 = Inr ssa1 \<longrightarrow>
              tauc_fixed_locations ssa1 = tauc_fixed_locations ssa0)"
proof -
  let ?m = "make_zeta_fixed_mask mq points"
  have mask: "vs ''zeta_fixed_mask'' = Some (Vec2S ?m)"
    using assms by (rule initSSACoefficients_mask)
  have cells: "\<forall>p \<in> set points. (?m p = 0 \<longleftrightarrow> mq p) \<and> (\<not> mq p \<longrightarrow> ?m p = 1)"
    by (simp add: make_zeta_fixed_mask_at)
  have on: "tauc_fixed_locations ssa1 = Some (Vec2S ?m)"
    if "Vel2Tauc_setup True meth vs ssa0 = Inr ssa1" for meth ssa0 ssa1
    using setup_hands_mask [OF that] mask by simp
  have off: "tauc_fixed_locations ssa1 = tauc_fixed_locations ssa0"
    if "Vel2Tauc_setup False meth vs ssa0 = Inr ssa1" for meth ssa0 ssa1
    using setup_hands_mask [OF that] by simp
  show ?thesis using mask cells on off by blast
qed

theorem zeta_fixed_mask_grounded_witness:
  "\<exists>vs m. initSSACoefficients [(0, 0), (0, 1)] (\<lambda>p. p = (0, 0)) example_file Map.empty = Inr vs \<and>
     vs ''zeta_fixed_mask'' = Some (Vec2S m) \<and> m (0, 0) = 0 \<and> m (0, 1) = 1 \<and>
     (\<exists>ssa1. Vel2Tauc_setup True ''ign'' vs (new_ssa example_lib) = Inr ssa1 \<and>
        tauc_fixed_locations ssa1 = Some (Vec2S m))"
proof -
  obtain vs where h: "initSSACoefficients [(0, 0), (0, 1)] (\<lambda>p. p = (0, 0)) example_file Map.empty = Inr vs"
    by (simp add: initSSACoefficients_def regrid2S_def fileHasVariable_def example_file_def)
  from zeta_fixed_mask_grounded [OF h] obtain m where
    m: "vs ''zeta_fixed_mask'' = Some (Vec2S m)"
    and c: "\<forall>p \<in> set [(0, 0), (0, 1)]. (m p = 0 \<longleftrightarrow> p = (0, 0)) \<and> (\<not> p = (0, 0) \<longrightarrow> m p = 1)"
    and s: "\<forall>meth ssa0 ssa1. Vel2Tauc_setup True meth vs ssa0 = Inr ssa1 \<longrightarrow>
              tauc_fixed_locations ssa1 = Some (Vec2S m)"
    by blast
  have vb: "vs ''vel_bc'' = None"
    using h by (auto simp: initSSACoefficients_def regrid2S_def fileHasVariable_def
        example_file_def Let_def)
  obtain ssa1 where e: "Vel2Tauc_setup True ''ign'' vs (new_ssa example_lib) = Inr ssa1"
    using vb by (simp add: Vel2Tauc_setup_def set_boundary_conditions_step_def Let_def)
  from c have "m (0, 0) = 0" "m (0, 1) = 1" by simp_all
  with h m s e show ?thesis by blast
qed

lemma rms_view_printed [simp]: "rms_view (printed m s) = rms_view s"
  by (simp add: rms_view_def printed_def)

lemma rms_view_happened [simp]:
  "e \<noteq> EvSolveInverse \<Longrightarrow> rms_view (happened e s) = rms_view s"
  by (simp add: rms_view_def happened_def)

lemma rms_view_update [simp]:
  "rms_view (s\<lparr>mvecs := v\<rparr>) = rms_view s"
  "rms_view (s\<lparr>files := f\<rparr>) = rms_view s"
  "rms_view (s\<lparr>ssa := a\<rparr>) = rms_view s"
  "rms_view (s\<lparr>solver := sv\<rparr>) = rms_view s"
  "rms_view (s\<lparr>tauc_prior := x\<rparr>) = rms_view s"
  "rms_view (s\<lparr>tauc := x\<rparr>) = rms_view s"
  "rms_view (s\<lparr>zeta := x\<rparr>) = rms_view s"
  "rms_view (s\<lparr>vel_ssa_observed := y\<rparr>) = rms_view s"
  by (simp_all add: rms_view_def)

lemma not_end_quiet_simps [simp]:
  "not_end_quiet (Inr s)" "not_end_quiet (stop out s) = (out \<noteq> PISMEndQuiet)"
  "not_end_quiet (Inl (out, s)) = (out \<noteq> PISMEndQuiet)"
  by (simp_all add: not_end_quiet_def stop_def)

lemma construct_rms: "rms_view (final (construct lib opts s)) = rms_view s \<and> not_end_quiet (construct lib opts s)"
  by (simp add: construct_def split: sum.splits)

lemma load_tauc_prior_rms: "rms_view (final (load_tauc_prior opts s)) = rms_view s \<and> not_end_quiet (load_tauc_prior opts s)"
  by (simp add: load_tauc_prior_def split: sum.splits)

lemma load_tauc_true_rms: "rms_view (final (load_tauc_true s)) = rms_view s \<and> not_end_quiet (load_tauc_true s)"
  by (simp add: load_tauc_true_def split: sum.splits)

lemma init_zeta_rms: "rms_view (final (init_zeta lib opts s)) = rms_view s \<and> not_end_quiet (init_zeta lib opts s)"
  by (simp add: init_zeta_def split: sum.splits)

lemma adjoint_test_rms: "rms_view (final (adjoint_test lib opts s)) = rms_view s \<and> not_end_quiet (adjoint_test lib opts s)"
  by (simp add: adjoint_test_def Let_def split: sum.splits)

lemma load_observations_rms: "rms_view (final (load_observations lib opts s)) = rms_view s \<and> not_end_quiet (load_observations lib opts s)"
  by (simp add: load_observations_def Let_def split: sum.splits)

lemma prepare_output_rms: "rms_view (final (prepare_output s)) = rms_view s \<and> not_end_quiet (prepare_output s)"
  by (simp add: prepare_output_def Let_def)

lemma setup_solver_rms: "rms_view (final (setup_solver lib opts s)) = rms_view s \<and> not_end_quiet (setup_solver lib opts s)"
  by (simp add: setup_solver_def Let_def)

lemma rms_then_run:
  assumes "rms_view (final r) = c \<and> not_end_quiet r"
    and "\<And>s. rms_view (final (f s)) = rms_view s \<and> not_end_quiet (f s)"
  shows "rms_view (final (then_run r f)) = c \<and> not_end_quiet (then_run r f)"
  using assms by (cases r) (auto simp: final_def)

lemma after_configure_rms:
  "rms_view (final (after_configure lib opts s)) = rms_view s \<and> not_end_quiet (after_configure lib opts s)"
  unfolding after_configure_def
  by (intro rms_then_run construct_rms load_tauc_prior_rms load_tauc_true_rms init_zeta_rms
      adjoint_test_rms load_observations_rms prepare_output_rms setup_solver_rms)

lemma before_solve_split:
  "before_solve lib opts s0 =
     then_run (then_run (resolve_filenames opts s0) (configure opts)) (after_configure lib opts)"
  by (cases "resolve_filenames opts s0")
    (simp_all add: before_solve_def before_observations_def before_adjoint_test_def
      before_init_zeta_def after_configure_def configure_def)

text \<open>
  C9. The configuration keeps the command-line value of the RMS target under
  \<open>inv_ssa_rms_error\<close> in every run that gets past the file names, also after the solve;
  the local variable is divided by \<open>secpera\<close> exactly in the runs that call the inverse
  solver, so the two differ there by the factor \<open>secpera\<close>.
\<close>

theorem rms_error_divided_config_kept:
  assumes "main lib config0 files0 opts = (out, s)"
  shows "(out \<noteq> PISMEndQuiet \<longrightarrow>
            config s ''inv_ssa_rms_error'' = Some (CfgReal (o_rms_error opts))) \<and>
         (EvSolveInverse \<in> set (trace s) \<longrightarrow>
            secpera lib \<noteq> 0 \<and> rms_error s = o_rms_error opts / secpera lib \<and>
            rms_error s * secpera lib = o_rms_error opts) \<and>
         (EvSolveInverse \<notin> set (trace s) \<longrightarrow> rms_error s = o_rms_error opts)"
proof -
  let ?s0 = "initial_state lib config0 files0 opts"
  let ?v = "(Some (CfgReal (o_rms_error opts)), o_rms_error opts, False)"
  show ?thesis
  proof (cases "resolve_filenames opts ?s0")
    case (Inl h)
    then have "before_solve lib opts ?s0 = Inl h" by (simp add: before_solve_split)
    then have "main lib config0 files0 opts = h" by (rule main_stops_early)
    with assms have h: "h = (out, s)" by simp
    show ?thesis using Inl unfolding h
      by (auto simp: resolve_filenames_def stop_def printed_def initial_state_def Let_def
          split: if_splits)
  next
    case (Inr sa)
    then have sa: "rms_error sa = o_rms_error opts" "trace sa = []"
      by (auto simp: resolve_filenames_def stop_def initial_state_def Let_def split: if_splits)
    obtain sb where sb: "configure opts sa = Inr sb" and vb: "rms_view sb = ?v"
      using sa by (simp add: configure_def rms_view_def)
    have bs: "before_solve lib opts ?s0 = after_configure lib opts sb"
      using Inr sb by (simp add: before_solve_split)
    have fr: "rms_view (final (after_configure lib opts sb)) = ?v"
      and nq: "not_end_quiet (after_configure lib opts sb)"
      using after_configure_rms [of lib opts sb] vb by simp_all
    show ?thesis
    proof (cases "after_configure lib opts sb")
      case (Inl h)
      then have "main lib config0 files0 opts = h" using bs by (simp add: main_stops_early)
      with assms have h: "h = (out, s)" by simp
      show ?thesis using fr nq Inl unfolding h by (simp add: rms_view_def)
    next
      case (Inr s1)
      then have v1: "rms_view s1 = ?v" using fr by simp
      have m: "main lib config0 files0 opts =
          (case solve_and_write lib opts s1 of Inl h \<Rightarrow> h | Inr s \<Rightarrow> (Finished, s))"
        using bs Inr by (simp add: main_def)
      show ?thesis using assms v1 unfolding m
        by (auto simp: solve_and_write_def Let_def stop_def printed_def happened_def
            rms_view_def split: if_splits)
    qed
  qed
qed


lemmas run_defs = before_solve_def before_observations_def before_adjoint_test_def
  before_init_zeta_def phase_defs initial_state_def Let_def basename_def
  initSSACoefficients_def regrid2S_def regrid2V_def fileHasVariable_def config_get_string_def
  Vel2Tauc_setup_def set_boundary_conditions_step_def set_fixed_locations_step_def stop_def
  test_direction_def vecs_attr2S_def

lemma example_run:
  "fst (main example_lib Map.empty example_files example_opts) = Finished"
  "EvSolveInverse \<in> set (trace (snd (main example_lib Map.empty example_files example_opts)))"
  by (simp_all add: main_def solve_and_write_def run_defs example_defs happened_def printed_def
      attach_listeners_def addIterationListener_def addXUpdateListener_def)

theorem rms_error_divided_config_kept_witness:
  "fst (main example_lib Map.empty example_files example_opts) = Finished \<and>
   config (snd (main example_lib Map.empty example_files example_opts)) ''inv_ssa_rms_error''
     = Some (CfgReal 100) \<and>
   rms_error (snd (main example_lib Map.empty example_files example_opts)) = 100 / 31556926"
proof -
  let ?m = "main example_lib Map.empty example_files example_opts"
  have h: "?m = (fst ?m, snd ?m)" by simp
  have nq: "fst ?m \<noteq> PISMEndQuiet" by (simp add: example_run)
  from rms_error_divided_config_kept [OF h] nq example_run(2)
  have c: "config (snd ?m) ''inv_ssa_rms_error'' = Some (CfgReal (o_rms_error example_opts))"
    and r: "rms_error (snd ?m) = o_rms_error example_opts / secpera example_lib"
    by blast+
  have "o_rms_error example_opts = 100" "secpera example_lib = 31556926"
    by (simp_all add: example_opts_def example_lib_def)
  with c r example_run(1) show ?thesis by simp
qed



lemma main_ends_in_adjoint_test:
  assumes "before_adjoint_test lib opts (initial_state lib config0 files0 opts) = Inr s1"
    and "adjoint_test lib opts s1 = Inl h"
  shows "main lib config0 files0 opts = h"
  using assms by (simp add: main_def before_solve_def before_observations_def)

lemma main_ends_in_load_observations:
  assumes "before_observations lib opts (initial_state lib config0 files0 opts) = Inr s1"
    and "load_observations lib opts s1 = Inl h"
  shows "main lib config0 files0 opts = h"
  using assms by (simp add: main_def before_solve_def)

lemma adjoint_test_calls_Inr: "adjoint_test lib opts s = Inr s' \<Longrightarrow> s' = s"
  by (auto simp: adjoint_test_def Let_def stop_def split: if_splits sum.splits)


lemma before_adjoint_test_calls_Inr:
  assumes "before_adjoint_test lib opts (initial_state lib config0 files0 opts) = Inr s1"
  shows "calls s1 = []"
  using before_adjoint_test_calls [of lib opts "initial_state lib config0 files0 opts"] assms
  by simp

lemma before_observations_calls_Inr:
  assumes "before_observations lib opts (initial_state lib config0 files0 opts) = Inr s1"
  shows "calls s1 = []"
proof -
  from assms obtain s where a: "before_adjoint_test lib opts (initial_state lib config0 files0 opts) = Inr s"
    and b: "adjoint_test lib opts s = Inr s1"
    by (auto simp: before_observations_def then_run_Inr)
  from b have "s1 = s" by (rule adjoint_test_calls_Inr)
  with before_adjoint_test_calls_Inr [OF a] show ?thesis by simp
qed

text \<open>
  C10. The observed SSA velocities: when the inverse data file has \<open>u_ssa_observed\<close> they
  are read from it (no SIA computation); otherwise, when it has \<open>u_surface_observed\<close>, they
  are the observed surface velocities minus the SIA surface velocities, cell by cell;
  when it has neither, the program reports that one must be given and exits with status 1,
  and a run that ends there has called nothing of the engine.
\<close>

theorem observed_ssa_velocities:
  "(\<forall>u v. files s (inv_data_filename s) ''u_ssa_observed'' = Some u \<and>
          files s (inv_data_filename s) ''v_ssa_observed'' = Some v \<longrightarrow>
      (\<exists>s'. load_observations lib opts s = Inr s' \<and>
            vel_ssa_observed s' = (\<lambda>c. (u c, v c)) \<and> calls s' = calls s)) \<and>
   (\<forall>u v. files s (inv_data_filename s) ''u_ssa_observed'' = None \<and>
          files s (inv_data_filename s) ''u_surface_observed'' = Some u \<and>
          files s (inv_data_filename s) ''v_surface_observed'' = Some v \<longrightarrow>
      (\<exists>s'. load_observations lib opts s = Inr s' \<and>
            (\<forall>c. vel_ssa_observed s' c =
               (u c - fst (computeSIASurfaceVelocities lib (o_is_regional opts)
                            ((mvecs s)(''vel_surface_observed'' \<mapsto> Vec2V (\<lambda>c. (u c, v c)))) c),
                v c - snd (computeSIASurfaceVelocities lib (o_is_regional opts)
                            ((mvecs s)(''vel_surface_observed'' \<mapsto> Vec2V (\<lambda>c. (u c, v c)))) c))))) \<and>
   (files s (inv_data_filename s) ''u_ssa_observed'' = None \<and>
    files s (inv_data_filename s) ''u_surface_observed'' = None \<longrightarrow>
      load_observations lib opts s =
        Inl (Exit 1, printed (NoObservedVelocities (inv_data_filename s)) s)) \<and>
   (\<forall>s1. before_observations lib opts (initial_state lib config0 files0 opts) = Inr s1 \<and>
         files s1 (inv_data_filename s1) ''u_ssa_observed'' = None \<and>
         files s1 (inv_data_filename s1) ''u_surface_observed'' = None \<longrightarrow>
      main lib config0 files0 opts =
        (Exit 1, printed (NoObservedVelocities (inv_data_filename s1)) s1) \<and>
      calls (printed (NoObservedVelocities (inv_data_filename s1)) s1) = [])"
proof -
  have direct: "\<exists>s'. load_observations lib opts s = Inr s' \<and>
            vel_ssa_observed s' = (\<lambda>c. (u c, v c)) \<and> calls s' = calls s"
    if "files s (inv_data_filename s) ''u_ssa_observed'' = Some u"
      "files s (inv_data_filename s) ''v_ssa_observed'' = Some v" for u v
    using that
    by (simp add: load_observations_def Let_def fileHasVariable_def regrid2V_def)
  have derived: "\<exists>s'. load_observations lib opts s = Inr s' \<and>
            (\<forall>c. vel_ssa_observed s' c =
               (u c - fst (computeSIASurfaceVelocities lib (o_is_regional opts)
                            ((mvecs s)(''vel_surface_observed'' \<mapsto> Vec2V (\<lambda>c. (u c, v c)))) c),
                v c - snd (computeSIASurfaceVelocities lib (o_is_regional opts)
                            ((mvecs s)(''vel_surface_observed'' \<mapsto> Vec2V (\<lambda>c. (u c, v c)))) c)))"
    if "files s (inv_data_filename s) ''u_ssa_observed'' = None"
      "files s (inv_data_filename s) ''u_surface_observed'' = Some u"
      "files s (inv_data_filename s) ''v_surface_observed'' = Some v" for u v
    using that
    by (simp add: load_observations_def Let_def fileHasVariable_def regrid2V_def vec_add_def
        happened_def)
  have missing: "load_observations lib opts t =
        Inl (Exit 1, printed (NoObservedVelocities (inv_data_filename t)) t)"
    if "files t (inv_data_filename t) ''u_ssa_observed'' = None"
      "files t (inv_data_filename t) ''u_surface_observed'' = None" for t
    using that by (simp add: load_observations_def Let_def fileHasVariable_def stop_def)
  have run: "main lib config0 files0 opts =
        (Exit 1, printed (NoObservedVelocities (inv_data_filename s1)) s1) \<and>
      calls (printed (NoObservedVelocities (inv_data_filename s1)) s1) = []"
    if r: "before_observations lib opts (initial_state lib config0 files0 opts) = Inr s1"
      and n: "files s1 (inv_data_filename s1) ''u_ssa_observed'' = None"
        "files s1 (inv_data_filename s1) ''u_surface_observed'' = None" for s1
    using main_ends_in_load_observations [OF r missing [OF n]]
      before_observations_calls_Inr [OF r] by simp
  show ?thesis using direct derived missing run by blast
qed

theorem observed_ssa_velocities_witness:
  "(\<exists>s'. load_observations example_lib example_opts
            ((initial_state example_lib Map.empty example_files example_opts)
               \<lparr>inv_data_filename := ''in.nc''\<rparr>) = Inr s' \<and>
         vel_ssa_observed s' (0, 0) = (5, 4)) \<and>
   fst (main example_lib Map.empty (\<lambda>n. (example_files n)(''u_surface_observed'' := None))
          example_opts) = Exit 1"
proof -
  let ?s = "(initial_state example_lib Map.empty example_files example_opts)
               \<lparr>inv_data_filename := ''in.nc''\<rparr>"
  let ?f = "\<lambda>n. (example_files n)(''u_surface_observed'' := None)"
  have a: "files ?s (inv_data_filename ?s) ''u_ssa_observed'' = None \<and>
      files ?s (inv_data_filename ?s) ''u_surface_observed'' = Some (\<lambda>_. 7) \<and>
      files ?s (inv_data_filename ?s) ''v_surface_observed'' = Some (\<lambda>_. 5)"
    by (simp add: initial_state_def example_files_def example_file_def)
  from observed_ssa_velocities [of ?s example_lib example_opts Map.empty example_files] a
  obtain s' where s': "load_observations example_lib example_opts ?s = Inr s'"
    and v: "\<forall>c. vel_ssa_observed s' c =
               (7 - fst (computeSIASurfaceVelocities example_lib (o_is_regional example_opts)
                            ((mvecs ?s)(''vel_surface_observed'' \<mapsto> Vec2V (\<lambda>c. (7, 5)))) c),
                5 - snd (computeSIASurfaceVelocities example_lib (o_is_regional example_opts)
                            ((mvecs ?s)(''vel_surface_observed'' \<mapsto> Vec2V (\<lambda>c. (7, 5)))) c))"
    by blast
  from v have v0: "vel_ssa_observed s' (0, 0) = (5, 4)"
    by (simp add: example_lib_def)
  obtain s1 where r: "before_observations example_lib example_opts
      (initial_state example_lib Map.empty ?f example_opts) = Inr s1"
    and n: "files s1 (inv_data_filename s1) ''u_ssa_observed'' = None \<and>
            files s1 (inv_data_filename s1) ''u_surface_observed'' = None"
    by (simp add: run_defs example_defs)
  from observed_ssa_velocities [of s1 example_lib example_opts Map.empty ?f] r n
  have "main example_lib Map.empty ?f example_opts =
        (Exit 1, printed (NoObservedVelocities (inv_data_filename s1)) s1)"
    by blast
  with s' v0 show ?thesis by auto
qed


lemma adjoint_test_reports:
  assumes "o_test_adjoint opts" and "\<not> startswith (s_method (solver s)) ''tikhonov''"
    and "test_direction (o_use_zeta_fixed_mask opts) (mvecs s) (grid_points lib)
           (randVectorS lib) = Inr d"
    and "secpera lib \<noteq> 0"
    and "testTStar lib (zeta s) d (randVectorV lib (1 / secpera lib)) = Inr (a, b)"
  shows "adjoint_test lib opts s =
     Inl (Exit 0, printed (AdjointReport a b) (happened EvTestTStar s))"
  using assms by (simp add: adjoint_test_def Let_def stop_def)

lemma adjoint_test_zero_secpera:
  assumes "o_test_adjoint opts" and "\<not> startswith (s_method (solver s)) ''tikhonov''"
    and "test_direction (o_use_zeta_fixed_mask opts) (mvecs s) (grid_points lib)
           (randVectorS lib) = Inr d"
    and "secpera lib = 0"
  shows "adjoint_test lib opts s = Inl (Aborted ZeroDivisionError, s)"
  using assms by (simp add: adjoint_test_def Let_def stop_def)

lemma adjoint_test_raises:
  assumes "o_test_adjoint opts" and "\<not> startswith (s_method (solver s)) ''tikhonov''"
    and "test_direction (o_use_zeta_fixed_mask opts) (mvecs s) (grid_points lib)
           (randVectorS lib) = Inr d"
    and "secpera lib \<noteq> 0"
    and "testTStar lib (zeta s) d (randVectorV lib (1 / secpera lib)) = Inl e"
  shows "adjoint_test lib opts s = Inl (Aborted e, happened EvTestTStar s)"
  using assms by (simp add: adjoint_test_def Let_def stop_def)

text \<open>
  C8. The adjoint test. When the test is requested, the method is not a Tikhonov one and
  \<open>secpera\<close> is not zero, the driver calls the self-test with the direction and the random
  range vector, prints the two inner products it returns and exits with status 0, whatever
  the two numbers are; nothing compares them. An exception of the self-test would end the
  run, and a zero \<open>secpera\<close> raises before the self-test is called. The self-test of the
  specification raises nothing: the run then reports the domain inner product of the
  direction with the adjoint's image and the range inner product of the linearisation's
  image with the range vector.
\<close>

theorem adjoint_test_reports_two_products:
  "(\<forall>d a b. o_test_adjoint opts \<and> \<not> startswith (s_method (solver s)) ''tikhonov'' \<and>
        test_direction (o_use_zeta_fixed_mask opts) (mvecs s) (grid_points lib)
          (randVectorS lib) = Inr d \<and>
        secpera lib \<noteq> 0 \<and>
        testTStar lib (zeta s) d (randVectorV lib (1 / secpera lib)) = Inr (a, b) \<longrightarrow>
      adjoint_test lib opts s =
        Inl (Exit 0, printed (AdjointReport a b) (happened EvTestTStar s))) \<and>
   (\<forall>d e. o_test_adjoint opts \<and> \<not> startswith (s_method (solver s)) ''tikhonov'' \<and>
        test_direction (o_use_zeta_fixed_mask opts) (mvecs s) (grid_points lib)
          (randVectorS lib) = Inr d \<and>
        secpera lib \<noteq> 0 \<and>
        testTStar lib (zeta s) d (randVectorV lib (1 / secpera lib)) = Inl e \<longrightarrow>
      adjoint_test lib opts s = Inl (Aborted e, happened EvTestTStar s)) \<and>
   (\<forall>d. o_test_adjoint opts \<and> \<not> startswith (s_method (solver s)) ''tikhonov'' \<and>
        test_direction (o_use_zeta_fixed_mask opts) (mvecs s) (grid_points lib)
          (randVectorS lib) = Inr d \<and>
        secpera lib = 0 \<longrightarrow>
      adjoint_test lib opts s = Inl (Aborted ZeroDivisionError, s)) \<and>
   (\<forall>s1 d T Tstar ipd ipr.
        o_test_adjoint opts \<and> \<not> startswith (solver_method lib) ''tikhonov'' \<and>
        before_adjoint_test lib opts (initial_state lib config0 files0 opts) = Inr s1 \<and>
        test_direction (o_use_zeta_fixed_mask opts) (mvecs s1) (grid_points lib)
          (randVectorS lib) = Inr d \<and>
        secpera lib \<noteq> 0 \<and>
        testTStar lib = adjoint_self_test T Tstar ipd ipr \<longrightarrow>
      main lib config0 files0 opts =
        (Exit 0,
         printed (AdjointReport (ipd d (Tstar (zeta s1) (randVectorV lib (1 / secpera lib))))
                                (ipr (T (zeta s1) d) (randVectorV lib (1 / secpera lib))))
           (happened EvTestTStar s1))) \<and>
   (\<forall>s1 d a b. o_test_adjoint opts \<and> \<not> startswith (solver_method lib) ''tikhonov'' \<and>
        before_adjoint_test lib opts (initial_state lib config0 files0 opts) = Inr s1 \<and>
        test_direction (o_use_zeta_fixed_mask opts) (mvecs s1) (grid_points lib)
          (randVectorS lib) = Inr d \<and>
        secpera lib \<noteq> 0 \<and>
        testTStar lib (zeta s1) d (randVectorV lib (1 / secpera lib)) = Inr (a, b) \<longrightarrow>
      main lib config0 files0 opts =
        (Exit 0, printed (AdjointReport a b) (happened EvTestTStar s1)))"
proof -
  have run: "main lib config0 files0 opts =
        (Exit 0, printed (AdjointReport a b) (happened EvTestTStar s1))"
    if t: "o_test_adjoint opts" and nt: "\<not> startswith (solver_method lib) ''tikhonov''"
      and r: "before_adjoint_test lib opts (initial_state lib config0 files0 opts) = Inr s1"
      and d: "test_direction (o_use_zeta_fixed_mask opts) (mvecs s1) (grid_points lib)
          (randVectorS lib) = Inr d"
      and sp: "secpera lib \<noteq> 0"
      and ts: "testTStar lib (zeta s1) d (randVectorV lib (1 / secpera lib)) = Inr (a, b)"
    for s1 d a b
  proof -
    have "s_method (solver s1) = solver_method lib"
      using before_adjoint_test_method [of lib opts config0 files0] r by simp
    with nt have "\<not> startswith (s_method (solver s1)) ''tikhonov''" by simp
    from main_ends_in_adjoint_test [OF r adjoint_test_reports [OF t this d sp ts]]
    show ?thesis .
  qed
  have model: "main lib config0 files0 opts =
        (Exit 0,
         printed (AdjointReport (ipd d (Tstar (zeta s1) (randVectorV lib (1 / secpera lib))))
                                (ipr (T (zeta s1) d) (randVectorV lib (1 / secpera lib))))
           (happened EvTestTStar s1))"
    if "o_test_adjoint opts" "\<not> startswith (solver_method lib) ''tikhonov''"
      "before_adjoint_test lib opts (initial_state lib config0 files0 opts) = Inr s1"
      "test_direction (o_use_zeta_fixed_mask opts) (mvecs s1) (grid_points lib)
          (randVectorS lib) = Inr d"
      "secpera lib \<noteq> 0"
      and m: "testTStar lib = adjoint_self_test T Tstar ipd ipr" for s1 d T Tstar ipd ipr
    by (rule run [OF that(1-5)]) (simp add: m adjoint_self_test_def)
  show ?thesis
    using adjoint_test_reports [of opts s lib] adjoint_test_raises [of opts s lib]
      adjoint_test_zero_secpera [of opts s lib] model run
    by blast
qed

theorem adjoint_test_reports_two_products_witness:
  "fst (main (example_lib\<lparr>testTStar := adjoint_self_test (\<lambda>x d c. (d c, d c)) (\<lambda>x r c. 0)
                              (\<lambda>a b. a (0, 0) * b (0, 0)) (\<lambda>a b. fst (a (0, 0)) * fst (b (0, 0)))\<rparr>)
          Map.empty example_files (example_opts\<lparr>o_test_adjoint := True\<rparr>)) = Exit 0 \<and>
   last (trace (snd (main (example_lib\<lparr>testTStar := adjoint_self_test (\<lambda>x d c. (d c, d c)) (\<lambda>x r c. 0)
                              (\<lambda>a b. a (0, 0) * b (0, 0)) (\<lambda>a b. fst (a (0, 0)) * fst (b (0, 0)))\<rparr>)
          Map.empty example_files (example_opts\<lparr>o_test_adjoint := True\<rparr>))))
     = Printed (AdjointReport 0 3)"
proof -
  let ?lib = "example_lib\<lparr>testTStar := adjoint_self_test (\<lambda>x d c. (d c, d c)) (\<lambda>x r c. 0)
                              (\<lambda>a b. a (0, 0) * b (0, 0)) (\<lambda>a b. fst (a (0, 0)) * fst (b (0, 0)))\<rparr>"
  let ?opts = "example_opts\<lparr>o_test_adjoint := True\<rparr>"
  have h1: "o_test_adjoint ?opts" by simp
  have h2: "\<not> startswith (solver_method ?lib) ''tikhonov''" by (simp add: example_lib_def)
  have h3: "secpera ?lib \<noteq> 0" by (simp add: example_lib_def)
  obtain s1 where r: "before_adjoint_test ?lib ?opts
      (initial_state ?lib Map.empty example_files ?opts) = Inr s1"
    and d: "test_direction (o_use_zeta_fixed_mask ?opts) (mvecs s1) (grid_points ?lib)
          (randVectorS ?lib) = Inr (\<lambda>_. 3)"
    by (simp add: run_defs example_defs)
  have ts: "testTStar ?lib (zeta s1) (\<lambda>_. 3) (randVectorV ?lib (1 / secpera ?lib)) = Inr (0, 3)"
    by (simp add: adjoint_self_test_def example_lib_def)
  from adjoint_test_reports_two_products [where opts = ?opts and lib = ?lib and ?config0.0 = Map.empty
      and ?files0.0 = example_files] h1 h2 h3 r d ts
  have m: "main ?lib Map.empty example_files ?opts =
        (Exit 0, printed (AdjointReport 0 3) (happened EvTestTStar s1))"
    by blast
  show ?thesis unfolding m by (simp add: printed_def happened_def)
qed


section \<open>Properties of the engine\<close>

lemma line_search_trials:
  "snd (line_search E obs k x d f0 t j n) \<le> j + n"
proof (induction n arbitrary: t j)
  case 0
  then show ?case by simp
next
  case (Suc n)
  have "snd (line_search E obs k x d f0 (backtrack E * t) (Suc j) n) \<le> Suc j + n"
    by (rule Suc.IH)
  then show ?case by (auto split: option.splits)
qed

lemma line_search_ascent:
  assumes "ascent_direction E obs x d f0" and "\<forall>i. \<not> interrupted E k i"
    and "0 < backtrack E" and "0 < t"
  shows "line_search E obs k x d f0 t j n = (LSFailed, j + n)"
  using assms by (induction n arbitrary: t j) (simp_all add: ascent_direction_def)

lemma trial_point_fixed:
  "fm c \<Longrightarrow> trial_point x t (mask_direction fm d) c = x c"
  by (simp add: trial_point_def mask_direction_def)

lemma iterate_fixed:
  "fixed_mask E c \<Longrightarrow> so_zeta (iterate E obs k n x) c = x c"
proof (induction n arbitrary: k x)
  case 0
  then show ?case by (simp add: ended_def)
next
  case (Suc n)
  show ?case
    using Suc.prems Suc.IH [OF Suc.prems]
    by (auto simp: ended_def Let_def trial_point_fixed
        split: option.splits ls_result.splits)
qed

lemma zero_fixed_loop_at:
  "zero_fixed_loop zfm ps d p = (if p \<in> set ps \<and> zfm p \<noteq> 0 then 0 else d p)"
  by (induction ps arbitrary: d) auto

text \<open>
  Without \<open>-use_zeta_fixed_mask\<close> the loop of lines 477-479 does not run: the direction
  of the adjoint test keeps its value 3 at the grid cell \<open>(0, 1)\<close>, where the mask is 1.
\<close>

theorem test_direction_unmasked_counterexample:
  "test_direction False example_vecs (grid_points example_lib) (randVectorS example_lib)
     = Inr (randVectorS example_lib) \<and>
   example_mask (0, 1) = 1 \<and> randVectorS example_lib (0, 1) = 3 \<and>
   (0, 1) \<in> set (grid_points example_lib)"
  by (simp add: test_direction_def example_mask_def make_zeta_fixed_mask_at example_lib_def)

text \<open>
  C1. In every solve of the engine, zeta at the cells of the fixed mask keeps its initial
  value, whatever the number of iterations. In the driver's adjoint test, under
  \<open>-use_zeta_fixed_mask\<close> the direction \<open>d\<close> is zeroed at every grid cell where
  \<open>zeta_fixed_mask\<close> is nonzero and kept where the mask is 0; without the flag \<open>d\<close> is left
  as it was drawn.
\<close>

theorem fixed_cells_unchanged:
  "(\<forall>c. fixed_mask E c \<longrightarrow> so_zeta (solve E x0 obs) c = x0 c) \<and>
   (\<forall>m. vs ''zeta_fixed_mask'' = Some (Vec2S m) \<longrightarrow>
      (\<exists>d'. test_direction True vs points d = Inr d' \<and>
            (\<forall>p \<in> set points. (m p \<noteq> 0 \<longrightarrow> d' p = 0) \<and> (m p = 0 \<longrightarrow> d' p = d p)))) \<and>
   test_direction False vs points d = Inr d"
proof -
  have a: "\<forall>c. fixed_mask E c \<longrightarrow> so_zeta (solve E x0 obs) c = x0 c"
    by (simp add: solve_def iterate_fixed)
  have b: "\<exists>d'. test_direction True vs points d = Inr d' \<and>
            (\<forall>p \<in> set points. (m p \<noteq> 0 \<longrightarrow> d' p = 0) \<and> (m p = 0 \<longrightarrow> d' p = d p))"
    if "vs ''zeta_fixed_mask'' = Some (Vec2S m)" for m
    using that by (simp add: test_direction_def vecs_attr2S_def zero_fixed_loop_at)
  have c: "test_direction False vs points d = Inr d"
    by (simp add: test_direction_def)
  show ?thesis using a b c by blast
qed


lemmas engine_defs = example_engine_def example_zeta0_def example_observed_def

theorem fixed_cells_unchanged_witness:
  "fixed_mask example_engine (0, 1) \<and>
   so_zeta (solve example_engine example_zeta0 example_observed) (0, 1) = example_zeta0 (0, 1) \<and>
   so_zeta (solve example_engine example_zeta0 example_observed) (0, 0) = 1 \<and>
   (\<exists>d'. test_direction True example_vecs (grid_points example_lib)
            (randVectorS example_lib) = Inr d' \<and> d' (0, 1) = 0 \<and> d' (0, 0) = 3)"
proof -
  have f: "fixed_mask example_engine (0, 1)" by (simp add: example_engine_def)
  have m: "example_vecs ''zeta_fixed_mask'' = Some (Vec2S example_mask)"
    by (simp add: example_vecs_def)
  have mv: "example_mask (0, 1) \<noteq> 0" "example_mask (0, 0) = 0"
    by (simp_all add: example_mask_def make_zeta_fixed_mask_at example_lib_def)
  have pts: "(0, 1) \<in> set (grid_points example_lib)" "(0, 0) \<in> set (grid_points example_lib)"
    by (simp_all add: example_lib_def)
  from fixed_cells_unchanged [of example_engine example_zeta0 example_observed example_vecs
      "grid_points example_lib" "randVectorS example_lib"] f m
  have z: "so_zeta (solve example_engine example_zeta0 example_observed) (0, 1) = example_zeta0 (0, 1)"
    and "\<exists>d'. test_direction True example_vecs (grid_points example_lib)
            (randVectorS example_lib) = Inr d' \<and>
            (\<forall>p \<in> set (grid_points example_lib).
               (example_mask p \<noteq> 0 \<longrightarrow> d' p = 0) \<and>
               (example_mask p = 0 \<longrightarrow> d' p = randVectorS example_lib p))"
    by blast+
  then obtain d' where d: "test_direction True example_vecs (grid_points example_lib)
            (randVectorS example_lib) = Inr d'"
    and c: "\<forall>p \<in> set (grid_points example_lib).
               (example_mask p \<noteq> 0 \<longrightarrow> d' p = 0) \<and>
               (example_mask p = 0 \<longrightarrow> d' p = randVectorS example_lib p)"
    by blast
  from c pts mv have "d' (0, 1) = 0" "d' (0, 0) = randVectorS example_lib (0, 0)" by blast+
  then have dv: "d' (0, 1) = 0 \<and> d' (0, 0) = 3" by (simp add: example_lib_def)
  have moved: "so_zeta (solve example_engine example_zeta0 example_observed) (0, 0) = 1"
    by (simp add: solve_def engine_defs eval_nat_numeral try_step_def trial_point_def
        mask_direction_def ended_def Let_def)
  from f z moved d dv show ?thesis by blast
qed

lemma iterate_body:
  "iterate E obs k (Suc n) x =
     (case loop_body E obs k x of
        Stopped out \<Rightarrow> out
      | Updated x' (Some out) \<Rightarrow> out
      | Updated x' None \<Rightarrow> iterate E obs (Suc k) n x')"
  by (simp add: loop_body_def Let_def split: option.splits ls_result.splits)

lemma head_iterate:
  "iterate_head E obs z i = Some x \<Longrightarrow> iterate E obs 0 (i + n) z = iterate E obs i n x"
proof (induction i arbitrary: x n)
  case 0
  then show ?case by simp
next
  case (Suc i)
  from Suc.prems obtain y where y: "iterate_head E obs z i = Some y"
    and b: "loop_body E obs i y = Updated x None"
    by (auto split: option.splits iteration.splits)
  have "iterate E obs 0 (i + Suc n) z = iterate E obs i (Suc n) y"
    using y by (rule Suc.IH)
  also have "\<dots> = iterate E obs (Suc i) n x"
    by (simp only: iterate_body b iteration.case option.case)
  finally show ?case by simp
qed

lemma solve_at_head:
  assumes "iterate_head E obs z i = Some x" and "i < max_iterations E"
  shows "solve E z obs =
     (case loop_body E obs i x of
        Stopped out \<Rightarrow> out
      | Updated x' (Some out) \<Rightarrow> out
      | Updated x' None \<Rightarrow> iterate E obs (Suc i) (max_iterations E - Suc i) x')"
proof -
  from assms(2) obtain m where m: "max_iterations E = i + Suc m"
    by (metis less_imp_Suc_add add_Suc_right)
  then have m': "max_iterations E - Suc i = m" by simp
  have "solve E z obs = iterate E obs i (Suc m) x"
    unfolding solve_def m using assms(1) by (rule head_iterate)
  then show ?thesis unfolding m' by (simp only: iterate_body)
qed

lemma solve_exhausted:
  assumes "iterate_head E obs z (max_iterations E) = Some x"
  shows "solve E z obs = ended MaxIterationsExceeded x None"
  using head_iterate [OF assms, of 0] by (simp add: solve_def)

lemma line_search_found:
  "fst (line_search E obs k x d f0 t j n) = StepFound t' u f \<Longrightarrow>
   forward E (trial_point x t' d) = Some u \<and>
   objective E obs (trial_point x t' d) u = Some f \<and> f < f0"
proof (induction n arbitrary: t j)
  case 0
  then show ?case by simp
next
  case (Suc n)
  then show ?case
    by (auto simp: try_step_def split: if_splits option.splits)
qed

lemma line_search_cancelled:
  "interrupted E k (Suc j) \<Longrightarrow> fst (line_search E obs k x d f0 t j (Suc n)) = LSCancelled"
  by simp

lemma iterate_success:
  "so_success (iterate E obs k n x) = (so_reason (iterate E obs k n x) = Success)"
  by (induction n arbitrary: k x)
    (auto simp: ended_def Let_def split: option.splits ls_result.splits)

lemma loop_body_stopped:
  "loop_body E obs k x = Stopped out \<Longrightarrow> \<not> so_success out"
  by (auto simp: loop_body_def ended_def Let_def
      split: if_splits option.splits ls_result.splits)

lemma loop_body_ended:
  assumes "loop_body E obs k x = Updated x' (Some out)" and "so_success out"
  shows "\<exists>u f. forward E x' = Some u \<and> objective E obs x' u = Some f \<and> f \<le> target E \<and>
               so_predicted out = Some u \<and> so_zeta out = x'"
  using assms
  by (auto simp: loop_body_def ended_def Let_def
      split: if_splits option.splits ls_result.splits dest: line_search_found)

lemma iterate_success_sound:
  "so_success (iterate E obs k n x) \<Longrightarrow>
   \<exists>u f. forward E (so_zeta (iterate E obs k n x)) = Some u \<and>
         objective E obs (so_zeta (iterate E obs k n x)) u = Some f \<and> f \<le> target E \<and>
         so_predicted (iterate E obs k n x) = Some u"
proof (induction n arbitrary: k x)
  case 0
  then show ?case by (simp add: ended_def)
next
  case (Suc n)
  show ?case
  proof (cases "loop_body E obs k x")
    case (Stopped out)
    then have "iterate E obs k (Suc n) x = out" by (simp only: iterate_body iteration.case)
    with Suc.prems loop_body_stopped [OF Stopped] show ?thesis by simp
  next
    case (Updated x' r)
    show ?thesis
    proof (cases r)
      case None
      with Updated have "iterate E obs k (Suc n) x = iterate E obs (Suc k) n x'"
        by (simp only: iterate_body iteration.case option.case)
      with Suc.prems Suc.IH [of "Suc k" x'] show ?thesis by simp
    next
      case (Some out)
      with Updated have e: "iterate E obs k (Suc n) x = out"
        by (simp only: iterate_body iteration.case option.case)
      from Updated Some have "loop_body E obs k x = Updated x' (Some out)" by simp
      from loop_body_ended [OF this] Suc.prems e show ?thesis by auto
    qed
  qed
qed

lemma reason_name_nonempty: "reason_name r \<noteq> []"
  by (cases r) simp_all


lemma main_after_solve_failure:
  assumes "before_solve lib opts (initial_state lib config0 files0 opts) = Inr s1"
    and "secpera lib \<noteq> 0"
    and "\<not> r_success (solveInverse lib (solver s1) (zeta s1) (vel_ssa_observed s1))"
  shows "fst (main lib config0 files0 opts) = Quit \<and>
         last (trace (snd (main lib config0 files0 opts))) =
           Printed (InverseSolveFailure
             (r_reason (solveInverse lib (solver s1) (zeta s1) (vel_ssa_observed s1))))"
  using assms
  by (simp add: main_def solve_and_write_def Let_def stop_def printed_def happened_def)

text \<open>
  C3. A solve ends with success exactly when its reason is \<open>Success\<close>, and it succeeds only
  when the forward model evaluates at the final zeta and the objective there meets the
  target; \<open>solveInverse\<close> returns that flag and \<open>inverseConvergedReason\<close> the name of the
  reason, never empty. Whatever fails at the head \<open>x\<close> of any iteration \<open>i\<close> that the solve
  reaches decides the outcome of the whole solve: an interrupt at the poll of the
  iteration or of a line-search trial gives \<open>UserCancelled\<close>, a failed forward solve
  \<open>ForwardSolveFailure\<close>, a residual without value \<open>DivergedResidual\<close>, a failed line
  search \<open>LineSearchFailure\<close>, a failing listener \<open>ListenerError\<close>, and using up the
  iterations \<open>MaxIterationsExceeded\<close>; none of these outcomes is a success. In the driver,
  a run that reaches the solve and whose solve does not succeed prints the failure with
  the name of the reason and quits.
\<close>

theorem failure_returns_named_reason:
  "so_success (solve E z obs) = (so_reason (solve E z obs) = Success) \<and>
   r_success (solveInverse_spec E sv z obs) = (so_reason (solve E z obs) = Success) \<and>
   r_reason (solveInverse_spec E sv z obs) = reason_name (so_reason (solve E z obs)) \<and>
   r_reason (solveInverse_spec E sv z obs) \<noteq> [] \<and>
   (so_success (solve E z obs) \<longrightarrow>
      (\<exists>u f. forward E (so_zeta (solve E z obs)) = Some u \<and>
             objective E obs (so_zeta (solve E z obs)) u = Some f \<and> f \<le> target E)) \<and>
   (iterate_head E obs z i = Some x \<and> i < max_iterations E \<and> interrupted E i 0 \<longrightarrow>
      solve E z obs = ended UserCancelled x None) \<and>
   (iterate_head E obs z i = Some x \<and> i < max_iterations E \<and> \<not> interrupted E i 0 \<and>
    forward E x = None \<longrightarrow>
      solve E z obs = ended ForwardSolveFailure x None) \<and>
   (\<forall>u. iterate_head E obs z i = Some x \<and> i < max_iterations E \<and> \<not> interrupted E i 0 \<and>
        forward E x = Some u \<and> objective E obs x u = None \<longrightarrow>
      solve E z obs = ended DivergedResidual x (Some u)) \<and>
   (\<forall>u f0. iterate_head E obs z i = Some x \<and> i < max_iterations E \<and> \<not> interrupted E i 0 \<and>
        forward E x = Some u \<and> objective E obs x u = Some f0 \<and>
        fst (line_search E obs i x (mask_direction (fixed_mask E) (direction E x u)) f0
               (initial_step E) 0 (max_trials E)) = LSFailed \<longrightarrow>
      solve E z obs = ended LineSearchFailure x (Some u)) \<and>
   (\<forall>u f0. iterate_head E obs z i = Some x \<and> i < max_iterations E \<and> \<not> interrupted E i 0 \<and>
        forward E x = Some u \<and> objective E obs x u = Some f0 \<and>
        fst (line_search E obs i x (mask_direction (fixed_mask E) (direction E x u)) f0
               (initial_step E) 0 (max_trials E)) = LSCancelled \<longrightarrow>
      solve E z obs = ended UserCancelled x (Some u)) \<and>
   (\<forall>u f0 t u' f. iterate_head E obs z i = Some x \<and> i < max_iterations E \<and>
        \<not> interrupted E i 0 \<and> forward E x = Some u \<and> objective E obs x u = Some f0 \<and>
        fst (line_search E obs i x (mask_direction (fixed_mask E) (direction E x u)) f0
               (initial_step E) 0 (max_trials E)) = StepFound t u' f \<and>
        \<not> invoke_listeners (listeners E) i
            (trial_point x t (mask_direction (fixed_mask E) (direction E x u))) \<longrightarrow>
      solve E z obs =
        ended ListenerError
          (trial_point x t (mask_direction (fixed_mask E) (direction E x u))) (Some u')) \<and>
   (iterate_head E obs z (max_iterations E) = Some x \<longrightarrow>
      solve E z obs = ended MaxIterationsExceeded x None) \<and>
   (\<forall>r y u. so_success (ended r y u) = (r = Success) \<and> so_reason (ended r y u) = r \<and>
            so_zeta (ended r y u) = y) \<and>
   (\<forall>k y d f0 t j n. interrupted E k (Suc j) \<longrightarrow>
      fst (line_search E obs k y d f0 t j (Suc n)) = LSCancelled) \<and>
   (\<forall>s1. before_solve lib opts (initial_state lib config0 files0 opts) = Inr s1 \<and>
         secpera lib \<noteq> 0 \<and> solveInverse lib = solveInverse_spec E \<and>
         so_reason (solve E (zeta s1) (vel_ssa_observed s1)) \<noteq> Success \<longrightarrow>
      fst (main lib config0 files0 opts) = Quit \<and>
      last (trace (snd (main lib config0 files0 opts))) =
        Printed (InverseSolveFailure
          (reason_name (so_reason (solve E (zeta s1) (vel_ssa_observed s1))))))"
proof -
  have s: "so_success (solve E z obs) = (so_reason (solve E z obs) = Success)" for z obs
    by (simp add: solve_def iterate_success)
  have rs: "r_success (solveInverse_spec E sv z obs) = (so_reason (solve E z obs) = Success)"
    for sv z obs
    using s [of z obs] by (simp add: solveInverse_spec_def Let_def)
  have rn: "r_reason (solveInverse_spec E sv z obs) = reason_name (so_reason (solve E z obs))"
    for sv z obs
    by (simp add: solveInverse_spec_def Let_def)
  have ne: "r_reason (solveInverse_spec E sv z obs) \<noteq> []"
    unfolding rn by (rule reason_name_nonempty)
  have sound: "\<exists>u f. forward E (so_zeta (solve E z obs)) = Some u \<and>
             objective E obs (so_zeta (solve E z obs)) u = Some f \<and> f \<le> target E"
    if "so_success (solve E z obs)"
    using iterate_success_sound [of E obs 0 "max_iterations E" z] that
    unfolding solve_def by blast
  have c: "solve E z obs = ended UserCancelled x None"
    if "iterate_head E obs z i = Some x" "i < max_iterations E" "interrupted E i 0"
    using solve_at_head [OF that(1,2)] that(3) by (simp add: loop_body_def)
  have f: "solve E z obs = ended ForwardSolveFailure x None"
    if "iterate_head E obs z i = Some x" "i < max_iterations E" "\<not> interrupted E i 0"
      "forward E x = None"
    using solve_at_head [OF that(1,2)] that(3,4) by (simp add: loop_body_def)
  have d: "solve E z obs = ended DivergedResidual x (Some u)"
    if "iterate_head E obs z i = Some x" "i < max_iterations E" "\<not> interrupted E i 0"
      "forward E x = Some u" "objective E obs x u = None" for u
    using solve_at_head [OF that(1,2)] that(3-5) by (simp add: loop_body_def)
  have l: "solve E z obs = ended LineSearchFailure x (Some u)"
    if "iterate_head E obs z i = Some x" "i < max_iterations E" "\<not> interrupted E i 0"
      "forward E x = Some u" "objective E obs x u = Some f0"
      "fst (line_search E obs i x (mask_direction (fixed_mask E) (direction E x u)) f0
               (initial_step E) 0 (max_trials E)) = LSFailed" for u f0
    using solve_at_head [OF that(1,2)] that(3-6) by (simp add: loop_body_def Let_def)
  have lc: "solve E z obs = ended UserCancelled x (Some u)"
    if "iterate_head E obs z i = Some x" "i < max_iterations E" "\<not> interrupted E i 0"
      "forward E x = Some u" "objective E obs x u = Some f0"
      "fst (line_search E obs i x (mask_direction (fixed_mask E) (direction E x u)) f0
               (initial_step E) 0 (max_trials E)) = LSCancelled" for u f0
    using solve_at_head [OF that(1,2)] that(3-6) by (simp add: loop_body_def Let_def)
  have le: "solve E z obs =
        ended ListenerError
          (trial_point x t (mask_direction (fixed_mask E) (direction E x u))) (Some u')"
    if "iterate_head E obs z i = Some x" "i < max_iterations E" "\<not> interrupted E i 0"
      "forward E x = Some u" "objective E obs x u = Some f0"
      "fst (line_search E obs i x (mask_direction (fixed_mask E) (direction E x u)) f0
               (initial_step E) 0 (max_trials E)) = StepFound t u' f"
      "\<not> invoke_listeners (listeners E) i
            (trial_point x t (mask_direction (fixed_mask E) (direction E x u)))"
    for u f0 t u' f
    using solve_at_head [OF that(1,2)] that(3-7) by (simp add: loop_body_def Let_def)
  have mx: "solve E z obs = ended MaxIterationsExceeded x None"
    if "iterate_head E obs z (max_iterations E) = Some x"
    using that by (rule solve_exhausted)
  have en: "\<forall>r y u. so_success (ended r y u) = (r = Success) \<and> so_reason (ended r y u) = r \<and>
            so_zeta (ended r y u) = y"
    by (simp add: ended_def)
  have ls: "\<forall>k y d f0 t j n. interrupted E k (Suc j) \<longrightarrow>
      fst (line_search E obs k y d f0 t j (Suc n)) = LSCancelled"
    by simp
  have run: "fst (main lib config0 files0 opts) = Quit \<and>
      last (trace (snd (main lib config0 files0 opts))) =
        Printed (InverseSolveFailure
          (reason_name (so_reason (solve E (zeta s1) (vel_ssa_observed s1)))))"
    if b: "before_solve lib opts (initial_state lib config0 files0 opts) = Inr s1"
      and sp: "secpera lib \<noteq> 0" and e: "solveInverse lib = solveInverse_spec E"
      and r: "so_reason (solve E (zeta s1) (vel_ssa_observed s1)) \<noteq> Success" for s1
  proof -
    have "\<not> r_success (solveInverse lib (solver s1) (zeta s1) (vel_ssa_observed s1))"
      using r unfolding e rs by simp
    from main_after_solve_failure [OF b sp this] show ?thesis unfolding e rn .
  qed
  show ?thesis
    apply (intro conjI allI impI)
                  apply (rule s)
                 apply (rule rs)
                apply (rule rn)
               apply (rule ne)
              apply (erule sound)
             apply (elim conjE, erule (2) c)
            apply (elim conjE, erule (3) f)
           apply (elim conjE, erule (4) d)
          apply (elim conjE, erule (5) l)
         apply (elim conjE, erule (5) lc)
        apply (elim conjE, erule (6) le)
       apply (erule mx)
      apply (simp add: ended_def)
     apply (simp add: ended_def)
    apply (simp add: ended_def)
    apply simp
    apply (elim conjE, drule (3) run, simp)
    apply (elim conjE, drule (3) run, simp)
    done
qed


theorem failure_returns_named_reason_witness:
  "fst (main (example_lib\<lparr>solveInverse := solveInverse_spec example_engine_ascent\<rparr>)
          Map.empty example_files example_opts) = Quit \<and>
   last (trace (snd (main (example_lib\<lparr>solveInverse := solveInverse_spec example_engine_ascent\<rparr>)
          Map.empty example_files example_opts)))
     = Printed (InverseSolveFailure ''LineSearchFailure'') \<and>
   so_reason (solve example_engine example_zeta0 example_observed_far) = MaxIterationsExceeded \<and>
   \<not> so_success (solve example_engine example_zeta0 example_observed_far) \<and>
   so_zeta (solve example_engine example_zeta0 example_observed_far) (0, 0) = 3"
proof -
  let ?lib = "example_lib\<lparr>solveInverse := solveInverse_spec example_engine_ascent\<rparr>"
  obtain s1 where b: "before_solve ?lib example_opts
      (initial_state ?lib Map.empty example_files example_opts) = Inr s1"
    and z: "zeta s1 = (\<lambda>c. 2)" and v: "vel_ssa_observed s1 = (\<lambda>c. (5, 4))"
    by (simp add: run_defs example_defs vec_add_def happened_def)
  have sp: "secpera ?lib \<noteq> 0" by (simp add: example_lib_def)
  have e: "solveInverse ?lib = solveInverse_spec example_engine_ascent" by simp
  have r: "so_reason (solve example_engine_ascent (zeta s1) (vel_ssa_observed s1)) = LineSearchFailure"
    unfolding z v
    by (simp add: solve_def example_engine_ascent_def example_engine_def eval_nat_numeral
        try_step_def trial_point_def mask_direction_def ended_def Let_def)
  then have n: "so_reason (solve example_engine_ascent (zeta s1) (vel_ssa_observed s1)) \<noteq> Success"
    by simp
  from failure_returns_named_reason [where E = example_engine_ascent and lib = ?lib and opts = example_opts
      and ?config0.0 = Map.empty and ?files0.0 = example_files]
    b sp e n
  have q: "fst (main ?lib Map.empty example_files example_opts) = Quit \<and>
      last (trace (snd (main ?lib Map.empty example_files example_opts))) =
        Printed (InverseSolveFailure
          (reason_name (so_reason (solve example_engine_ascent (zeta s1) (vel_ssa_observed s1)))))"
    by blast
  obtain x where h: "iterate_head example_engine example_observed_far example_zeta0
      (max_iterations example_engine) = Some x" and x: "x (0, 0) = 3"
    by (simp add: example_engine_def example_zeta0_def example_observed_far_def
        eval_nat_numeral loop_body_def try_step_def trial_point_def mask_direction_def
        ended_def Let_def)
  from failure_returns_named_reason [where E = example_engine and z = example_zeta0 and obs = example_observed_far
      and x = x] h
  have "solve example_engine example_zeta0 example_observed_far = ended MaxIterationsExceeded x None"
    by blast
  then have "so_reason (solve example_engine example_zeta0 example_observed_far) = MaxIterationsExceeded"
    "\<not> so_success (solve example_engine example_zeta0 example_observed_far)"
    "so_zeta (solve example_engine example_zeta0 example_observed_far) (0, 0) = 3"
    using x by (simp_all add: ended_def)
  with q show ?thesis unfolding r by simp
qed


lemma iterate_line_search_failure:
  assumes "\<forall>i. \<not> interrupted E k i" and "0 < initial_step E" and "0 < backtrack E"
    and "forward E x = Some u" and "objective E obs x u = Some g0"
    and "ascent_direction E obs x (mask_direction (fixed_mask E) (direction E x u)) g0"
  shows "iterate E obs k (Suc n) x = ended LineSearchFailure x (Some u)"
proof -
  have "line_search E obs k x (mask_direction (fixed_mask E) (direction E x u)) g0
          (initial_step E) 0 (max_trials E) = (LSFailed, 0 + max_trials E)"
    using assms(6) assms(1) assms(3) assms(2) by (rule line_search_ascent)
  then show ?thesis using assms(1,4,5) by (simp add: Let_def)
qed

text \<open>
  C4. The line search makes at most the configured number of trial evaluations, for any
  direction. For an ascent direction, with positive steps and no interrupt, it makes
  exactly that many and fails; the controller then ends the solve with the reason
  \<open>LineSearchFailure\<close>, without success, at the iterate it had.
\<close>

theorem line_search_fails_within_max_trials:
  "snd (line_search E obs k x d f0 (initial_step E) 0 (max_trials E)) \<le> max_trials E \<and>
   (ascent_direction E obs x d f0 \<and> (\<forall>i. \<not> interrupted E k i) \<and>
    0 < initial_step E \<and> 0 < backtrack E \<longrightarrow>
      line_search E obs k x d f0 (initial_step E) 0 (max_trials E) = (LSFailed, max_trials E)) \<and>
   (\<forall>u g0. (\<forall>i. \<not> interrupted E k i) \<and> 0 < initial_step E \<and> 0 < backtrack E \<and>
        forward E x = Some u \<and> objective E obs x u = Some g0 \<and>
        ascent_direction E obs x (mask_direction (fixed_mask E) (direction E x u)) g0 \<longrightarrow>
      so_reason (iterate E obs k (Suc n) x) = LineSearchFailure \<and>
      \<not> so_success (iterate E obs k (Suc n) x) \<and>
      so_zeta (iterate E obs k (Suc n) x) = x)"
proof -
  have a: "snd (line_search E obs k x d f0 (initial_step E) 0 (max_trials E)) \<le> max_trials E"
    using line_search_trials [of E obs k x d f0 "initial_step E" 0 "max_trials E"] by simp
  have b: "line_search E obs k x d f0 (initial_step E) 0 (max_trials E) = (LSFailed, max_trials E)"
    if "ascent_direction E obs x d f0" "\<forall>i. \<not> interrupted E k i"
      "0 < initial_step E" "0 < backtrack E"
    using line_search_ascent [OF that(1,2,4,3), of 0 "max_trials E"] by simp
  have c: "so_reason (iterate E obs k (Suc n) x) = LineSearchFailure \<and>
      \<not> so_success (iterate E obs k (Suc n) x) \<and>
      so_zeta (iterate E obs k (Suc n) x) = x"
    if "\<forall>i. \<not> interrupted E k i" "0 < initial_step E" "0 < backtrack E"
      "forward E x = Some u" "objective E obs x u = Some g0"
      "ascent_direction E obs x (mask_direction (fixed_mask E) (direction E x u)) g0" for u g0
    unfolding iterate_line_search_failure [OF that] by (simp add: ended_def)
  show ?thesis using a b c by blast
qed

theorem line_search_fails_within_max_trials_witness:
  "ascent_direction example_engine_ascent example_observed example_zeta0
     (mask_direction (fixed_mask example_engine_ascent) (\<lambda>c. - 1)) 2 \<and>
   line_search example_engine_ascent example_observed 0 example_zeta0
     (mask_direction (fixed_mask example_engine_ascent) (\<lambda>c. - 1)) 2
     (initial_step example_engine_ascent) 0 (max_trials example_engine_ascent) = (LSFailed, 4) \<and>
   so_reason (solve example_engine_ascent example_zeta0 example_observed) = LineSearchFailure"
proof -
  let ?E = example_engine_ascent
  let ?d = "mask_direction (fixed_mask ?E) (\<lambda>c. - 1)"
  let ?u = "\<lambda>c::cell. (0::real, 0::real)"
  have asc: "ascent_direction ?E example_observed example_zeta0 ?d 2"
    by (simp add: ascent_direction_def try_step_def trial_point_def mask_direction_def
        example_engine_ascent_def engine_defs)
  have ni: "\<forall>i. \<not> interrupted ?E 0 i" by (simp add: example_engine_ascent_def engine_defs)
  have st: "0 < initial_step ?E" "0 < backtrack ?E"
    by (simp_all add: example_engine_ascent_def engine_defs)
  have fw: "forward ?E example_zeta0 = Some ?u"
    by (simp add: example_engine_ascent_def engine_defs)
  have ob: "objective ?E example_observed example_zeta0 ?u = Some 2"
    by (simp add: example_engine_ascent_def engine_defs)
  have dir: "direction ?E example_zeta0 ?u = (\<lambda>c. - 1)"
    by (simp add: example_engine_ascent_def engine_defs)
  have mt: "max_trials ?E = 4" "max_iterations ?E = Suc 2"
    by (simp_all add: example_engine_ascent_def engine_defs)
  from line_search_fails_within_max_trials [of ?E example_observed 0 example_zeta0 ?d 2 2] asc ni st
  have ls: "line_search ?E example_observed 0 example_zeta0 ?d 2
      (initial_step ?E) 0 (max_trials ?E) = (LSFailed, max_trials ?E)"
    by blast
  have asc': "ascent_direction ?E example_observed example_zeta0
      (mask_direction (fixed_mask ?E) (direction ?E example_zeta0 ?u)) 2"
    using asc unfolding dir .
  from line_search_fails_within_max_trials [of ?E example_observed 0 example_zeta0 ?d 2 2] ni st fw ob asc'
  have "so_reason (iterate ?E example_observed 0 (Suc 2) example_zeta0) = LineSearchFailure"
    by blast
  then have "so_reason (solve ?E example_zeta0 example_observed) = LineSearchFailure"
    by (simp add: solve_def mt)
  with asc ls mt show ?thesis by simp
qed


section \<open>Properties of the restart\<close>

lemma call_xupdate_listeners_append:
  "call_xupdate_listeners (ls @ [l]) z fs =
     call_xupdate_listener l z (call_xupdate_listeners ls z fs)"
  by (induction ls arbitrary: fs) simp_all

lemma attach_listeners_xupdate:
  "xupdate_listeners (attach_listeners opts outp sv) = xupdate_listeners sv @ [ZetaSaver outp]"
  by (simp add: attach_listeners_def Let_def addIterationListener_def
      addLinearIterationListener_def addXUpdateListener_def)

lemma zeta_saved:
  "call_xupdate_listeners (xupdate_listeners (attach_listeners opts outp sv)) z fs outp ''zeta_inv''
     = Some z"
  by (simp add: attach_listeners_xupdate call_xupdate_listeners_append
      call_xupdate_listener_def write_var_def)




lemma zeta_frame [simp]:
  "zeta (printed m s) = zeta s" "zeta (happened e s) = zeta s"
  by (simp_all add: printed_def happened_def)



























end
